theory Spec2Isabelle
  imports Main
begin

section \<open>JavaScript strings\<close>

text \<open>
  The repository is JavaScript. A JavaScript string is modelled by the list of the bytes
  of its UTF-8 encoding (type \<open>string\<close>); the strings the code handles are well-formed
  text (bodies decoded by \<open>response.text()\<close> and \<open>TextDecoder\<close>, stored JSON).
  Every index the modelled code computes is the position of an ASCII delimiter
  (\<open>#\<close>, \<open>:\<close>, \<open>@\<close>, \<open>://\<close>) found by search, so \<open>substring\<close> at such an index cuts
  the byte list where JavaScript cuts the code-unit list.
  A \<^emph>\<open>binary string\<close> (the result of \<open>atob\<close>, the argument of \<open>btoa\<close>: every code unit
  is below 256) is modelled by the list of its code units, one byte each.
  A value that may be \<open>undefined\<close> or \<open>null\<close> is an \<open>option\<close>.
\<close>

definition cu :: "char \<Rightarrow> nat" where
  "cu c = of_char c"

definition truthy :: "string option \<Rightarrow> bool" where
  "truthy v = (case v of None \<Rightarrow> False | Some s \<Rightarrow> s \<noteq> [])"

definition startsWith :: "string \<Rightarrow> string \<Rightarrow> bool" where
  "startsWith s p = (take (length p) s = p)"

fun js_includes :: "string \<Rightarrow> string \<Rightarrow> bool" where
  "js_includes [] p = (p = [])"
| "js_includes (c # s) p = (startsWith (c # s) p \<or> js_includes s p)"

fun indexOf :: "string \<Rightarrow> string \<Rightarrow> nat option" where
  "indexOf [] p = (if p = [] then Some 0 else None)"
| "indexOf (c # s) p =
     (if startsWith (c # s) p then Some 0 else map_option Suc (indexOf s p))"

fun lastIndexOf :: "string \<Rightarrow> string \<Rightarrow> nat option" where
  "lastIndexOf [] p = (if p = [] then Some 0 else None)"
| "lastIndexOf (c # s) p =
     (case lastIndexOf s p of
        Some i \<Rightarrow> Some (Suc i)
      | None \<Rightarrow> if startsWith (c # s) p then Some 0 else None)"

text \<open>\<open>s.substring(a, b)\<close>: both indices are clamped to the length and swapped when
  \<open>a > b\<close>; \<open>s.substring(a)\<close> runs to the end.\<close>

definition substring :: "string \<Rightarrow> nat \<Rightarrow> nat \<Rightarrow> string" where
  "substring s a b =
     (let a' = min a (length s); b' = min b (length s)
      in take (max a' b' - min a' b') (drop (min a' b') s))"

definition substring_from :: "string \<Rightarrow> nat \<Rightarrow> string" where
  "substring_from s a = drop a s"

fun split_on :: "char \<Rightarrow> string \<Rightarrow> string list" where
  "split_on d [] = [[]]"
| "split_on d (c # s) =
     (if c = d then [] # split_on d s
      else (case split_on d s of [] \<Rightarrow> [[c]] | l # ls \<Rightarrow> (c # l) # ls))"

fun join_with :: "string \<Rightarrow> string list \<Rightarrow> string" where
  "join_with sep [] = []"
| "join_with sep [x] = x"
| "join_with sep (x # y # r) = x @ sep @ join_with sep (y # r)"

subsection \<open>White space: \<open>trim()\<close> and the regular expression \<open>\s\<close>\<close>

text \<open>
  ECMAScript white space and line terminators, in UTF-8: U+0009 to U+000D, U+0020,
  U+00A0 (C2 A0), U+1680 (E1 9A 80), U+2000 to U+200A (E2 80 80 to 8A), U+2028, U+2029
  (E2 80 A8, A9), U+202F (E2 80 AF), U+205F (E2 81 9F), U+3000 (E3 80 80) and U+FEFF
  (EF BB BF). \<open>ws_len s\<close> is the number of bytes of the white-space character \<open>s\<close>
  starts with, and 0 when it starts with none.
\<close>

definition ws3 :: "char \<Rightarrow> char \<Rightarrow> char \<Rightarrow> bool" where
  "ws3 a b c =
     ((a = CHR 0xE1 \<and> b = CHR 0x9A \<and> c = CHR 0x80)
    \<or> (a = CHR 0xE2 \<and> b = CHR 0x80 \<and>
         ((128 \<le> cu c \<and> cu c \<le> 138) \<or> c = CHR 0xA8 \<or> c = CHR 0xA9 \<or> c = CHR 0xAF))
    \<or> (a = CHR 0xE2 \<and> b = CHR 0x81 \<and> c = CHR 0x9F)
    \<or> (a = CHR 0xE3 \<and> b = CHR 0x80 \<and> c = CHR 0x80)
    \<or> (a = CHR 0xEF \<and> b = CHR 0xBB \<and> c = CHR 0xBF))"

definition ws_len :: "string \<Rightarrow> nat" where
  "ws_len s =
     (case s of
        [] \<Rightarrow> 0
      | a # r \<Rightarrow>
          if (9 \<le> cu a \<and> cu a \<le> 13) \<or> cu a = 32 then 1
          else (case r of
                  [] \<Rightarrow> 0
                | b # r' \<Rightarrow>
                    if a = CHR 0xC2 \<and> b = CHR 0xA0 then 2
                    else (case r' of
                            [] \<Rightarrow> 0
                          | c # r'' \<Rightarrow> if ws3 a b c then 3 else 0)))"

lemma ws_len_le: "ws_len s \<le> length s"
  by (auto simp: ws_len_def split: list.splits)

function trimStart :: "string \<Rightarrow> string" where
  "trimStart s = (if ws_len s = 0 then s else trimStart (drop (ws_len s) s))"
  by pat_completeness auto
termination
proof (relation "measure length")
  show "wf (measure length)" by simp
next
  fix s :: string
  assume "ws_len s \<noteq> 0"
  moreover have "ws_len s \<le> length s" by (rule ws_len_le)
  ultimately show "(drop (ws_len s) s, s) \<in> measure length" by simp
qed

declare trimStart.simps [simp del]

text \<open>The white-space character a string ends with: the suffix of 1, 2 or 3 bytes that
  is exactly one white-space character.\<close>

definition ws_suffix_len :: "string \<Rightarrow> nat" where
  "ws_suffix_len s =
     (if 1 \<le> length s \<and> ws_len (drop (length s - 1) s) = 1 then 1
      else if 2 \<le> length s \<and> ws_len (drop (length s - 2) s) = 2 then 2
      else if 3 \<le> length s \<and> ws_len (drop (length s - 3) s) = 3 then 3
      else 0)"

function trimEnd :: "string \<Rightarrow> string" where
  "trimEnd s =
     (if ws_suffix_len s = 0 then s else trimEnd (take (length s - ws_suffix_len s) s))"
  by pat_completeness auto
termination
proof (relation "measure length")
  show "wf (measure length)" by simp
next
  fix s :: string
  assume "ws_suffix_len s \<noteq> 0"
  then have "0 < ws_suffix_len s \<and> ws_suffix_len s \<le> length s"
    by (auto simp: ws_suffix_len_def split: if_splits)
  then have "length s - ws_suffix_len s < length s" by arith
  then show "(take (length s - ws_suffix_len s) s, s) \<in> measure length" by simp
qed

declare trimEnd.simps [simp del]

definition js_trim :: "string \<Rightarrow> string" where
  "js_trim s = trimEnd (trimStart s)"

text \<open>\<open>s.replace(/\s/g, '')\<close>.\<close>

function remove_ws :: "string \<Rightarrow> string" where
  "remove_ws s =
     (case s of
        [] \<Rightarrow> []
      | c # r \<Rightarrow> if ws_len s = 0 then c # remove_ws r else remove_ws (drop (ws_len s) s))"
  by pat_completeness auto
termination
proof (relation "measure length")
  show "wf (measure length)" by simp
next
  fix s :: string and c r
  assume "s = c # r" "ws_len s = 0"
  then show "(r, s) \<in> measure length" by simp
next
  fix s :: string and c r
  assume "s = c # r" "ws_len s \<noteq> 0"
  then show "(drop (ws_len s) s, s) \<in> measure length" by simp
qed

declare remove_ws.simps [simp del]

subsection \<open>Base64: \<open>atob\<close> and \<open>btoa\<close>\<close>

text \<open>\<open>btoa\<close> maps a binary string to its Base64 text; \<open>atob\<close> is the forgiving Base64
  decoder of the platform: it removes ASCII white space (TAB, LF, FF, CR, SPACE), removes
  one or two trailing \<open>=\<close> when the length is a multiple of four, and throws
  (\<open>None\<close>) when the remaining length is 1 modulo 4 or a character is outside the
  alphabet.\<close>

definition byte :: "nat \<Rightarrow> char" where
  "byte n = char_of n"

definition b64_char :: "nat \<Rightarrow> char" where
  "b64_char n =
     (if n < 26 then byte (n + 65)
      else if n < 52 then byte (n + 71)
      else if n < 62 then byte (n - 4)
      else if n = 62 then CHR ''+'' else CHR ''/'')"

definition b64_val :: "char \<Rightarrow> nat option" where
  "b64_val c =
     (let n = cu c in
      if 65 \<le> n \<and> n \<le> 90 then Some (n - 65)
      else if 97 \<le> n \<and> n \<le> 122 then Some (n - 71)
      else if 48 \<le> n \<and> n \<le> 57 then Some (n + 4)
      else if n = 43 then Some 62
      else if n = 47 then Some 63
      else None)"

fun b64_encode :: "nat list \<Rightarrow> string" where
  "b64_encode [] = []"
| "b64_encode [a] = [b64_char (a div 4), b64_char ((a mod 4) * 16), CHR ''='', CHR ''='']"
| "b64_encode [a, b] =
     [b64_char (a div 4), b64_char ((a mod 4) * 16 + b div 16),
      b64_char ((b mod 16) * 4), CHR ''='']"
| "b64_encode (a # b # c # r) =
     [b64_char (a div 4), b64_char ((a mod 4) * 16 + b div 16),
      b64_char ((b mod 16) * 4 + c div 64), b64_char (c mod 64)] @ b64_encode r"

definition btoa :: "string \<Rightarrow> string" where
  "btoa s = b64_encode (map cu s)"

fun b64_decode :: "nat list \<Rightarrow> string" where
  "b64_decode (a # b # c # d # r) =
     [byte (a * 4 + b div 16), byte ((b mod 16) * 16 + c div 4), byte ((c mod 4) * 64 + d)]
       @ b64_decode r"
| "b64_decode [a, b, c] = [byte (a * 4 + b div 16), byte ((b mod 16) * 16 + c div 4)]"
| "b64_decode [a, b] = [byte (a * 4 + b div 16)]"
| "b64_decode [a] = []"
| "b64_decode [] = []"

definition ascii_ws :: "char \<Rightarrow> bool" where
  "ascii_ws c = (cu c = 9 \<or> cu c = 10 \<or> cu c = 12 \<or> cu c = 13 \<or> cu c = 32)"

definition strip_pad :: "string \<Rightarrow> string" where
  "strip_pad s =
     (if 2 \<le> length s \<and> drop (length s - 2) s = ''=='' then take (length s - 2) s
      else if 1 \<le> length s \<and> drop (length s - 1) s = ''='' then take (length s - 1) s
      else s)"

definition atob :: "string \<Rightarrow> string option" where
  "atob data =
     (let d1 = filter (\<lambda>c. \<not> ascii_ws c) data;
          d2 = (if length d1 mod 4 = 0 then strip_pad d1 else d1)
      in if length d2 mod 4 = 1 then None
         else map_option b64_decode (those (map b64_val d2)))"

text \<open>A binary string read as an ordinary string: each code unit below 256 is one
  character, whose UTF-8 encoding has one or two bytes.\<close>

definition binary_as_text :: "string \<Rightarrow> string" where
  "binary_as_text s =
     concat (map (\<lambda>c. if cu c < 128 then [c]
                       else [byte (192 + cu c div 64), byte (128 + cu c mod 64)]) s)"

subsection \<open>Well-formed text, \<open>encodeURIComponent\<close> and \<open>decodeURIComponent\<close>\<close>

text \<open>\<open>utf8_len s\<close> is the number of bytes of the well-formed UTF-8 sequence \<open>s\<close> starts
  with (overlong forms, surrogates and code points above U+10FFFF are not well-formed),
  and 0 when it starts with none. A byte list that is not well-formed stands for a
  string with an unpaired surrogate.\<close>

definition cont :: "char \<Rightarrow> bool" where
  "cont c = (128 \<le> cu c \<and> cu c \<le> 191)"

definition second3 :: "char \<Rightarrow> char \<Rightarrow> bool" where
  "second3 a b =
     (if cu a = 224 then 160 \<le> cu b \<and> cu b \<le> 191
      else if cu a = 237 then 128 \<le> cu b \<and> cu b \<le> 159
      else cont b)"

definition second4 :: "char \<Rightarrow> char \<Rightarrow> bool" where
  "second4 a b =
     (if cu a = 240 then 144 \<le> cu b \<and> cu b \<le> 191
      else if cu a = 244 then 128 \<le> cu b \<and> cu b \<le> 143
      else cont b)"

definition utf8_len :: "string \<Rightarrow> nat" where
  "utf8_len s =
     (case s of
        [] \<Rightarrow> 0
      | a # r \<Rightarrow>
          if cu a < 128 then 1
          else if 194 \<le> cu a \<and> cu a \<le> 223 then
            (case r of b # r1 \<Rightarrow> if cont b then 2 else 0 | [] \<Rightarrow> 0)
          else if 224 \<le> cu a \<and> cu a \<le> 239 then
            (case r of
               b # c # r2 \<Rightarrow> if second3 a b \<and> cont c then 3 else 0
             | _ \<Rightarrow> 0)
          else if 240 \<le> cu a \<and> cu a \<le> 244 then
            (case r of
               b # c # d # r3 \<Rightarrow> if second4 a b \<and> cont c \<and> cont d then 4 else 0
             | _ \<Rightarrow> 0)
          else 0)"

lemma utf8_len_le: "utf8_len s \<le> length s"
  by (auto simp: utf8_len_def split: list.splits)

function utf8_valid :: "string \<Rightarrow> bool" where
  "utf8_valid s =
     (if s = [] then True
      else if utf8_len s = 0 then False
      else utf8_valid (drop (utf8_len s) s))"
  by pat_completeness auto
termination
proof (relation "measure length")
  show "wf (measure length)" by simp
next
  fix s :: string
  assume "s \<noteq> []" "utf8_len s \<noteq> 0"
  then show "(drop (utf8_len s) s, s) \<in> measure length" by simp
qed

declare utf8_valid.simps [simp del]

text \<open>\<open>unescape(encodeURIComponent(s))\<close>: the UTF-8 bytes of \<open>s\<close> as a binary string;
  \<open>encodeURIComponent\<close> throws \<open>URIError\<close> (\<open>None\<close>) on a string that is not
  well-formed.\<close>

definition utf8_binary :: "string \<Rightarrow> string option" where
  "utf8_binary s = (if utf8_valid s then Some s else None)"

definition btoa_utf8 :: "string \<Rightarrow> string option" where
  "btoa_utf8 s = map_option btoa (utf8_binary s)"

definition hex_upper :: "nat \<Rightarrow> char" where
  "hex_upper n = (if n < 10 then byte (48 + n) else byte (55 + n))"

definition hex_lower :: "nat \<Rightarrow> char" where
  "hex_lower n = (if n < 10 then byte (48 + n) else byte (87 + n))"

definition alnum :: "char \<Rightarrow> bool" where
  "alnum c = ((48 \<le> cu c \<and> cu c \<le> 57) \<or> (65 \<le> cu c \<and> cu c \<le> 90)
              \<or> (97 \<le> cu c \<and> cu c \<le> 122))"

definition unreserved :: "char \<Rightarrow> bool" where
  "unreserved c = (alnum c \<or> c \<in> set (''-_.!~*()'' @ [CHR 0x27]))"

definition percent :: "char \<Rightarrow> string" where
  "percent c = [CHR ''%'', hex_upper (cu c div 16), hex_upper (cu c mod 16)]"

definition encodeURIComponent :: "string \<Rightarrow> string option" where
  "encodeURIComponent s =
     (if utf8_valid s then Some (concat (map (\<lambda>c. if unreserved c then [c] else percent c) s))
      else None)"

section \<open>UserAgentPolicy: \<open>getProcessedUserAgent\<close>\<close>

text \<open>\<open>getProcessedUserAgent(originalUserAgent, url = '')\<close> of \<open>modules/utils.js\<close>: a
  falsy argument (\<open>undefined\<close>, \<open>null\<close>, the empty string) is returned as it is, every
  other one is replaced by the fixed client name. The second parameter is never read.\<close>

definition getProcessedUserAgent :: "string option \<Rightarrow> string option" where
  "getProcessedUserAgent originalUserAgent =
     (if \<not> truthy originalUserAgent then originalUserAgent else Some ''v2rayN/7.23'')"

text \<open>Claim C8, as stated, fails: the guard in the first line returns an empty
  declared User-Agent unchanged.\<close>

theorem getProcessedUserAgent_empty_counterexample:
  "getProcessedUserAgent (Some '''') \<noteq> Some ''v2rayN/7.23''"
  by (simp add: getProcessedUserAgent_def truthy_def)

text \<open>Claim C8, amended: every non-empty declared User-Agent is replaced by the single
  canonical string \<open>v2rayN/7.23\<close>, whatever it is; an absent or empty one is returned
  unchanged.\<close>

theorem getProcessedUserAgent_canonical:
  "(truthy ua \<longrightarrow> getProcessedUserAgent ua = Some ''v2rayN/7.23'')
   \<and> (\<not> truthy ua \<longrightarrow> getProcessedUserAgent ua = ua)"
  by (simp add: getProcessedUserAgent_def)

theorem getProcessedUserAgent_canonical_witness:
  "truthy (Some ''clash-verge/v1.3.8'')
   \<and> getProcessedUserAgent (Some ''clash-verge/v1.3.8'') = Some ''v2rayN/7.23''
   \<and> \<not> truthy None \<and> getProcessedUserAgent None = None"
  using getProcessedUserAgent_canonical [of "Some ''clash-verge/v1.3.8''"]
        getProcessedUserAgent_canonical [of None]
  by (simp add: truthy_def)

section \<open>SourceFetcher: \<open>fetchSubscriptionWithFallback\<close>\<close>

text \<open>
  The network is a parameter: a function from the request the code issues to what the
  \<open>Promise.race\<close> of the fetch and its timer settles to. A rejection (network failure,
  the 10 s or 15 s timer, a URL the constructor refuses) is \<open>Rejected\<close> with its
  message; both tiers run inside \<open>try\<close> blocks that catch it. Reading the body can
  reject as well (\<open>body = None\<close>).
  \<open>env\<close> is the worker's environment (\<open>None\<close>: the default \<open>null\<close>);
  \<open>subConverter\<close> is the field of the merged settings
  \<open>{ ...defaultSettings, ...settingsData }\<close> the storage adapter yields
  (\<open>defaultSettings\<close> is imported from a module that is not part of the sources).
  The field \<open>method\<close> of the result is written \<open>method'\<close>.
\<close>

record response =
  ok :: bool
  status :: nat
  body :: "string option"

datatype outcome = Rejected string | Resolved response

datatype request =
    DirectGet string string
  | ConverterGet string string

record worker_env =
  MISUB_KV :: bool
  subConverter :: "string option"
  COOKIE_SECRET :: "string option"

record fetch_result =
  success :: bool
  content :: string
  userAgent :: string
  method' :: string
  error :: "string option"

definition challenge_page :: "string \<Rightarrow> bool" where
  "challenge_page text =
     (js_includes text ''Just a moment...'' \<or> js_includes text ''cf-browser-verification''
      \<or> js_includes text ''Access denied'' \<or> js_includes text ''Error 403'')"

text \<open>Tier 1 (the first \<open>try\<close> block): \<open>Some\<close> is the early \<open>return\<close>, \<open>None\<close> falls
  through to tier 2.\<close>

definition direct_fetch :: "(request \<Rightarrow> outcome) \<Rightarrow> string \<Rightarrow> string \<Rightarrow> fetch_result option" where
  "direct_fetch net url preferredUserAgent =
     (case net (DirectGet url preferredUserAgent) of
        Rejected msg \<Rightarrow> None
      | Resolved r \<Rightarrow>
          if ok r then
            (case body r of
               None \<Rightarrow> None
             | Some text \<Rightarrow>
                 if challenge_page text then None
                 else if 0 < length (js_trim text) then
                   Some \<lparr>success = True, content = text, userAgent = preferredUserAgent,
                         method' = ''direct'', error = None\<rparr>
                 else None)
          else None)"

text \<open>Tier 2 (the second \<open>try\<close> block, entered when \<open>env && env.MISUB_KV\<close>): the
  converter is asked for \<open>target=base64\<close>; its answer is decoded with \<open>atob\<close> after
  \<open>replace(/\s/g, '')\<close>, and returned undecoded when \<open>atob\<close> throws.\<close>

definition subconverter_fetch ::
  "(request \<Rightarrow> outcome) \<Rightarrow> string \<Rightarrow> worker_env option \<Rightarrow> fetch_result option" where
  "subconverter_fetch net url env =
     (case env of
        None \<Rightarrow> None
      | Some e \<Rightarrow>
          if MISUB_KV e then
            (case subConverter e of
               None \<Rightarrow> None
             | Some host \<Rightarrow>
                 if host = [] \<or> js_trim host = [] then None
                 else
                   (case net (ConverterGet host url) of
                      Rejected msg \<Rightarrow> None
                    | Resolved r \<Rightarrow>
                        if ok r then
                          (case body r of
                             None \<Rightarrow> None
                           | Some base64Content \<Rightarrow>
                               (case atob (remove_ws base64Content) of
                                  Some decodedContent \<Rightarrow>
                                    Some \<lparr>success = True,
                                          content = binary_as_text decodedContent,
                                          userAgent = ''subconverter'',
                                          method' = ''subconverter'', error = None\<rparr>
                                | None \<Rightarrow>
                                    Some \<lparr>success = True, content = base64Content,
                                          userAgent = ''subconverter'',
                                          method' = ''subconverter'', error = None\<rparr>))
                        else None))
          else None)"

text \<open>The message of the final \<open>return\<close>, a Chinese sentence followed by nothing else:
  its UTF-8 bytes.\<close>

definition both_failed_message :: string where
  "both_failed_message =
     [CHR 0xE7, CHR 0x9B, CHR 0xB4, CHR 0xE6, CHR 0x8E, CHR 0xA5, CHR 0xE8, CHR 0x8E,
      CHR 0xB7, CHR 0xE5, CHR 0x8F, CHR 0x96, CHR 0xE5, CHR 0x92, CHR 0x8C]
     @ '' subconverter '' @
     [CHR 0xE9, CHR 0x83, CHR 0xBD, CHR 0xE5, CHR 0xA4, CHR 0xB1, CHR 0xE8, CHR 0xB4,
      CHR 0xA5]"

definition fetchSubscriptionWithFallback ::
  "(request \<Rightarrow> outcome) \<Rightarrow> string \<Rightarrow> string \<Rightarrow> worker_env option \<Rightarrow> fetch_result" where
  "fetchSubscriptionWithFallback net url preferredUserAgent env =
     (case direct_fetch net url preferredUserAgent of
        Some r \<Rightarrow> r
      | None \<Rightarrow>
          (case subconverter_fetch net url env of
             Some r \<Rightarrow> r
           | None \<Rightarrow>
               \<lparr>success = False, content = [], userAgent = ''none'', method' = ''failed'',
                error = Some both_failed_message\<rparr>))"

text \<open>A network for the examples: the direct request times out, the converter answers
  200 with the Base64 of \<open>ss://x\<close>.\<close>

definition example_net :: "request \<Rightarrow> outcome" where
  "example_net rq =
     (case rq of
        DirectGet u a \<Rightarrow> Rejected ''Request timed out''
      | ConverterGet h u \<Rightarrow> Resolved \<lparr>ok = True, status = 200, body = Some ''c3M6Ly94''\<rparr>)"

definition example_env :: worker_env where
  "example_env =
     \<lparr>MISUB_KV = True, subConverter = Some ''url.v1.mk'', COOKIE_SECRET = Some ''s3cret''\<rparr>"

lemma direct_fetch_method:
  "direct_fetch net url ua = Some r \<Longrightarrow> method' r = ''direct'' \<and> success r \<and> error r = None"
  by (auto simp: direct_fetch_def split: outcome.splits option.splits if_splits)

lemma subconverter_fetch_method:
  "subconverter_fetch net url env = Some r \<Longrightarrow>
     method' r = ''subconverter'' \<and> success r \<and> error r = None"
  by (auto simp: subconverter_fetch_def split: outcome.splits option.splits if_splits)

text \<open>Claim C5, as stated, fails: when the direct fetch fails and the converter-mediated
  fetch succeeds, the method is the string \<open>subconverter\<close>, which is none of \<open>direct\<close>,
  \<open>indirect\<close>, \<open>failed\<close>.\<close>

theorem fetch_method_indirect_counterexample:
  "method' (fetchSubscriptionWithFallback example_net ''https://a.example/sub'' ''v2rayN/7.23''
             (Some example_env)) = ''subconverter''
   \<and> method' (fetchSubscriptionWithFallback example_net ''https://a.example/sub'' ''v2rayN/7.23''
             (Some example_env)) \<notin> {''direct'', ''indirect'', ''failed''}"
  by code_simp

text \<open>Claim C5, amended: the method is always one of \<open>direct\<close>, \<open>subconverter\<close>,
  \<open>failed\<close>. It is \<open>direct\<close>, with \<open>success\<close>, exactly when tier 1 returns;
  \<open>subconverter\<close>, with \<open>success\<close>, exactly when tier 1 falls through and tier 2
  returns; and \<open>failed\<close>, with \<open>success = false\<close> and the fixed human-readable error
  message, exactly when both tiers fall through.\<close>

theorem fetch_method_cases:
  "(let r = fetchSubscriptionWithFallback net url ua env in
     (direct_fetch net url ua \<noteq> None \<and> method' r = ''direct'' \<and> success r)
   \<or> (direct_fetch net url ua = None \<and> subconverter_fetch net url env \<noteq> None
        \<and> method' r = ''subconverter'' \<and> success r)
   \<or> (direct_fetch net url ua = None \<and> subconverter_fetch net url env = None
        \<and> method' r = ''failed'' \<and> \<not> success r \<and> error r = Some both_failed_message))"
proof (cases "direct_fetch net url ua")
  case (Some r)
  then show ?thesis
    using direct_fetch_method [OF Some] by (simp add: fetchSubscriptionWithFallback_def)
next
  case None
  show ?thesis
  proof (cases "subconverter_fetch net url env")
    case (Some r)
    then show ?thesis
      using None subconverter_fetch_method [OF Some]
      by (simp add: fetchSubscriptionWithFallback_def)
  next
    case None2: None
    then show ?thesis
      using None by (simp add: fetchSubscriptionWithFallback_def)
  qed
qed

section \<open>The request handler: \<open>handleMisubRequest\<close>\<close>

text \<open>
  \<open>handleMisubRequest(context)\<close> of the modular handler. The handler awaits
  collaborators whose modules are not part of the sources (\<open>request-context.js\<close>,
  \<open>user-agent-utils.js\<close>, \<open>cache-manager.js\<close>, \<open>node-cache-service.js\<close>,
  \<open>subconverter-client.js\<close>, \<open>disguise-page.js\<close>, \<open>auth-middleware.js\<close>) and
  platform services (the clock, \<open>crypto.subtle\<close>); what they return is a field of the
  record \<open>collab\<close>, a function where the handler computes the argument. The model
  gives the handler's \<open>Response\<close>; access logging, the Telegram notification and the
  download counter written through \<open>context.waitUntil\<close> do not change it and are left
  out. \<open>None\<close> is a rejected promise: the exceptions the typed model leaves are the
  \<open>URIError\<close>s of \<open>encodeURIComponent\<close> and the \<open>TypeError\<close>s of the \<open>Headers\<close>
  operations.
\<close>

type_synonym headers = "(string \<times> string) list"

record reply =
  reply_status :: nat
  reply_body :: string
  reply_headers :: headers

definition lower_char :: "char \<Rightarrow> char" where
  "lower_char c = (if 65 \<le> cu c \<and> cu c \<le> 90 then byte (cu c + 32) else c)"

definition lower :: "string \<Rightarrow> string" where
  "lower s = map lower_char s"

text \<open>A plain object used as a header dictionary: \<open>obj[key] = value\<close> replaces the value
  of an existing key and appends a new one.\<close>

fun obj_set :: "('k \<times> 'v) list \<Rightarrow> 'k \<Rightarrow> 'v \<Rightarrow> ('k \<times> 'v) list" where
  "obj_set [] k v = [(k, v)]"
| "obj_set ((k', v') # h) k v = (if k' = k then (k, v) # h else (k', v') # obj_set h k v)"

text \<open>A \<open>Headers\<close> object: names are compared without regard to case (they are kept
  lower-cased), \<open>set\<close> replaces, and the constructor appends each entry, joining the
  values of a repeated name with a comma. Every name and value that enters the object
  is checked, and \<open>None\<close> is the \<open>TypeError\<close> of that check: the value is converted to
  a byte string, HTTP white space (TAB, LF, CR, SPACE) is stripped from both of its
  ends, and the call throws when the name is not an HTTP token or when the stripped
  value contains NUL, LF or CR. The conversion keeps an ASCII string as it is; what it
  does with any other string depends on the runtime and is the parameter \<open>platform\<close>
  (the Workers runtime keeps the string, in UTF-8; a runtime that follows WebIDL throws
  on a code unit above 255).\<close>

definition http_ws :: "char \<Rightarrow> bool" where
  "http_ws c = (cu c = 9 \<or> cu c = 10 \<or> cu c = 13 \<or> cu c = 32)"

definition normalize_value :: "string \<Rightarrow> string" where
  "normalize_value v = rev (dropWhile http_ws (rev (dropWhile http_ws v)))"

definition tchar :: "char \<Rightarrow> bool" where
  "tchar c = (alnum c \<or> c \<in> set (''!#$%&*+-.^_|~'' @ [CHR 0x27, CHR 0x60]))"

definition valid_name :: "string \<Rightarrow> bool" where
  "valid_name k = (k \<noteq> [] \<and> list_all tchar k)"

definition valid_value :: "string \<Rightarrow> bool" where
  "valid_value v = list_all (\<lambda>c. cu c \<noteq> 0 \<and> cu c \<noteq> 10 \<and> cu c \<noteq> 13) v"

definition ByteString :: "(string \<Rightarrow> string option) \<Rightarrow> string \<Rightarrow> string option" where
  "ByteString platform v = (if list_all (\<lambda>c. cu c < 128) v then Some v else platform v)"

text \<open>The value a \<open>Headers\<close> object stores for the pair \<open>(k, v)\<close>.\<close>

definition header_value :: "(string \<Rightarrow> string option) \<Rightarrow> string \<Rightarrow> string \<Rightarrow> string option" where
  "header_value platform k v =
     (case ByteString platform v of
        None \<Rightarrow> None
      | Some b \<Rightarrow>
          if valid_name k \<and> valid_value (normalize_value b) then Some (normalize_value b)
          else None)"

definition Headers_set ::
  "(string \<Rightarrow> string option) \<Rightarrow> headers \<Rightarrow> string \<Rightarrow> string \<Rightarrow> headers option" where
  "Headers_set platform h k v =
     (let name = lower k in map_option (obj_set h name) (header_value platform k v))"

definition Headers_get :: "headers \<Rightarrow> string \<Rightarrow> string option" where
  "Headers_get h k = map_of h (lower k)"

definition Headers_append ::
  "(string \<Rightarrow> string option) \<Rightarrow> headers \<Rightarrow> string \<Rightarrow> string \<Rightarrow> headers option" where
  "Headers_append platform h k v =
     (let name = lower k
      in map_option
           (\<lambda>x. case map_of h name of
                   None \<Rightarrow> h @ [(name, x)]
                 | Some old \<Rightarrow> obj_set h name (old @ '', '' @ x))
           (header_value platform k v))"

text \<open>One call of \<open>put\<close> (\<open>set\<close> or \<open>append\<close>) for each entry, in order; the first
  exception ends the loop.\<close>

fun fill ::
  "(headers \<Rightarrow> string \<Rightarrow> string \<Rightarrow> headers option) \<Rightarrow> headers \<Rightarrow> headers \<Rightarrow> headers option" where
  "fill put h [] = Some h"
| "fill put h ((k, v) # entries) =
     (case put h k v of None \<Rightarrow> None | Some h' \<Rightarrow> fill put h' entries)"

definition new_Headers :: "(string \<Rightarrow> string option) \<Rightarrow> headers \<Rightarrow> headers option" where
  "new_Headers platform obj = fill (Headers_append platform) [] obj"

text \<open>\<open>new Response(body, {status, headers})\<close> for a string body and headers that are
  already a \<open>Headers\<close> object: a response without \<open>Content-Type\<close> gets the one of a
  string body.\<close>

definition new_Response :: "nat \<Rightarrow> string \<Rightarrow> headers \<Rightarrow> reply" where
  "new_Response st b hs =
     \<lparr>reply_status = st, reply_body = b,
      reply_headers = (if map_of hs ''content-type'' = None
                       then hs @ [(''content-type'', ''text/plain;charset=UTF-8'')]
                       else hs)\<rparr>"

text \<open>\<open>s.slice(0, n)\<close> counts UTF-16 code units: a character of one to three UTF-8
  bytes is one unit, one of four bytes is two units. Cutting between the two leaves the
  unpaired high surrogate (written in generalised UTF-8). A byte that starts no complete
  sequence counts as one unit.\<close>

definition high_surrogate :: "char \<Rightarrow> char \<Rightarrow> char \<Rightarrow> char \<Rightarrow> string" where
  "high_surrogate a b c d =
     (let x = (cu a - 240) * 262144 + (cu b - 128) * 4096 + (cu c - 128) * 64 + (cu d - 128)
              - 65536;
          hi = x div 1024
      in [CHR 0xED, byte (160 + hi div 64), byte (128 + hi mod 64)])"

fun utf16_take :: "nat \<Rightarrow> string \<Rightarrow> string" where
  "utf16_take 0 s = []"
| "utf16_take (Suc n) [] = []"
| "utf16_take (Suc n) (a # r) =
     (if cu a < 192 then a # utf16_take n r
      else if cu a < 224 then
        (case r of b # r1 \<Rightarrow> a # b # utf16_take n r1 | [] \<Rightarrow> [a])
      else if cu a < 240 then
        (case r of b # c # r2 \<Rightarrow> a # b # c # utf16_take n r2 | _ \<Rightarrow> a # utf16_take n r)
      else
        (case r of
           b # c # d # r3 \<Rightarrow>
             if n = 0 then high_surrogate a b c d
             else a # b # c # d # utf16_take (n - 1) r3
         | _ \<Rightarrow> a # utf16_take n r))"

subsection \<open>Stored data and the request\<close>

text \<open>\<open>new Date(profile.expiresAt)\<close> is a time value in milliseconds or an invalid
  date, which compares false with everything.\<close>

datatype js_date = Time int | InvalidDate

record user_info =
  total :: int
  upload :: "int option"
  download :: "int option"

record misub =
  sub_id :: string
  sub_url :: string
  sub_name :: string
  sub_enabled :: bool
  sub_userInfo :: "user_info option"
  isExpiredNode :: bool

record profile =
  p_id :: string
  p_customId :: "string option"
  p_name :: string
  p_enabled :: bool
  p_subscriptions :: "string list"
  p_manualNodes :: "string list"
  p_expiresAt :: "js_date option"
  p_subConverter :: "string option"
  p_subConfig :: "string option"

text \<open>\<open>config\<close>: the merged and migrated settings.\<close>

record config =
  FileName :: string
  mytoken :: "string option"
  profileToken :: "string option"
  cfg_subConverter :: "string option"
  cfg_subConfig :: "string option"
  disguise_enabled :: bool
  enableTrafficNode :: "bool option"

record cache_call =
  cacheKey :: string
  forceRefresh :: bool
  refresh_targetMisubs :: "misub list"
  refresh_prependedContent :: string
  targetMisubsCount :: nat

record cache_answer =
  combinedNodeList :: string
  cacheHeaders :: headers

record converter_call =
  candidates :: "string list"
  cc_targetFormat :: string
  callbackUrl :: string
  cc_subConfig :: "string option"
  cc_subName :: string
  cc_cacheHeaders :: headers
  timeout :: nat

text \<open>What \<open>fetchFromSubconverter\<close> throws, as the handler reads it: a falsy value, or
  a truthy one with the text of \<open>${lastError.message}\<close> (\<open>undefined\<close> for a value
  without a message; \<open>None\<close> when the conversion of the message to a string throws).\<close>

datatype thrown = Falsy | Err "string option"

record collab =
  isBrowserAgent :: "string \<Rightarrow> bool"
  authMiddleware :: bool
  createDisguiseResponse :: reply
  token :: "string option"
  profileIdentifier :: "string option"
  determineTargetFormat :: string
  formatBytes :: "int \<Rightarrow> string"
  generateCacheKey :: "string \<Rightarrow> string \<Rightarrow> string"
  resolveNodeListWithCache :: "cache_call \<Rightarrow> cache_answer"
  hmac_sha256 :: "string \<Rightarrow> string \<Rightarrow> string"
  getSubconverterCandidates :: "string \<Rightarrow> string list"
  fetchFromSubconverter :: "converter_call \<Rightarrow> thrown + reply"
  header_bytes :: "string \<Rightarrow> string option"

record request_context =
  userAgentHeader :: string
  url_protocol :: string
  url_host :: string
  searchParams :: "(string \<times> string) list"
  env :: worker_env
  now :: int
  settings :: config
  allMisubs :: "misub list"
  allProfiles :: "profile list"

definition searchParams_has :: "(string \<times> string) list \<Rightarrow> string \<Rightarrow> bool" where
  "searchParams_has ps k = (map_of ps k \<noteq> None)"

definition searchParams_get :: "(string \<times> string) list \<Rightarrow> string \<Rightarrow> string option" where
  "searchParams_get ps k = map_of ps k"

subsection \<open>\<open>getCallbackToken\<close>\<close>

text \<open>\<open>getCallbackToken(env)\<close> of \<open>modules/utils.js\<close>: the HMAC-SHA-256 signature of the
  constant \<open>callback-static-data\<close> under \<open>env.COOKIE_SECRET\<close> (or the built-in default
  secret), in lower-case hexadecimal, cut to 16 characters. The signature primitive of
  \<open>crypto.subtle\<close> is the parameter \<open>hmac\<close>: key bytes and data bytes to signature
  bytes.\<close>

definition byte_hex :: "char \<Rightarrow> string" where
  "byte_hex b = [hex_lower (cu b div 16), hex_lower (cu b mod 16)]"

definition getCallbackToken :: "(string \<Rightarrow> string \<Rightarrow> string) \<Rightarrow> worker_env \<Rightarrow> string" where
  "getCallbackToken hmac e =
     (let secret = (case COOKIE_SECRET e of
                      None \<Rightarrow> ''default-callback-secret''
                    | Some k \<Rightarrow> if k = [] then ''default-callback-secret'' else k);
          signature = hmac secret ''callback-static-data''
      in take 16 (concat (map byte_hex signature)))"

subsection \<open>Identity, profile and source selection\<close>

text \<open>The sentinel node of an expired profile. Its name is
  \<open>encodeURIComponent\<close> of a Chinese sentence (``your subscription is no longer
  valid''), whose UTF-8 bytes are \<open>expired_text\<close>.\<close>

definition expired_text :: string where
  "expired_text =
     [CHR 0xE6, CHR 0x82, CHR 0xA8, CHR 0xE7, CHR 0x9A, CHR 0x84, CHR 0xE8, CHR 0xAE,
      CHR 0xA2, CHR 0xE9, CHR 0x98, CHR 0x85, CHR 0xE5, CHR 0xB7, CHR 0xB2, CHR 0xE5,
      CHR 0xA4, CHR 0xB1, CHR 0xE6, CHR 0x95, CHR 0x88]"

definition DEFAULT_EXPIRED_NODE :: string where
  "DEFAULT_EXPIRED_NODE =
     ''trojan://00000000-0000-0000-0000-000000000000@127.0.0.1:443#''
     @ ''%E6%82%A8%E7%9A%84%E8%AE%A2%E9%98%85%E5%B7%B2%E5%A4%B1%E6%95%88''"

text \<open>The entry that stands for an expired profile's sources; the object has no
  \<open>enabled\<close> and no \<open>userInfo\<close> field. Its \<open>name\<close> is another Chinese sentence
  (``your subscription has expired'').\<close>

definition expired_entry :: misub where
  "expired_entry =
     \<lparr>sub_id = ''expired-node'', sub_url = DEFAULT_EXPIRED_NODE,
      sub_name =
        [CHR 0xE6, CHR 0x82, CHR 0xA8, CHR 0xE7, CHR 0x9A, CHR 0x84, CHR 0xE8, CHR 0xAE,
         CHR 0xA2, CHR 0xE9, CHR 0x98, CHR 0x85, CHR 0xE5, CHR 0xB7, CHR 0xB2, CHR 0xE5,
         CHR 0x88, CHR 0xB0, CHR 0xE6, CHR 0x9C, CHR 0x9F],
      sub_enabled = False, sub_userInfo = None, isExpiredNode = True\<rparr>"

record selection =
  targetMisubs :: "misub list"
  subName :: string
  effectiveSubConverter :: "string option"
  effectiveSubConfig :: "string option"
  isProfileExpired :: bool

text \<open>\<open>new Response(text, {status})\<close>.\<close>

definition plain_reply :: "nat \<Rightarrow> string \<Rightarrow> reply" where
  "plain_reply st b = new_Response st b []"

definition profile_matches :: "string \<Rightarrow> profile \<Rightarrow> bool" where
  "profile_matches ident p =
     ((truthy (p_customId p) \<and> p_customId p = Some ident) \<or> p_id p = ident)"

definition profile_expired :: "profile \<Rightarrow> int \<Rightarrow> bool" where
  "profile_expired p now_ms =
     (case p_expiresAt p of
        None \<Rightarrow> False
      | Some InvalidDate \<Rightarrow> False
      | Some (Time expiry) \<Rightarrow> expiry < now_ms)"

definition belongsToProfile :: "profile \<Rightarrow> misub \<Rightarrow> bool" where
  "belongsToProfile p item =
     (let isSubscription = startsWith (sub_url item) ''http''
      in (isSubscription \<and> sub_id item \<in> set (p_subscriptions p))
         \<or> (\<not> isSubscription \<and> sub_id item \<in> set (p_manualNodes p)))"

definition override :: "string option \<Rightarrow> string option \<Rightarrow> string option" where
  "override own dflt =
     (case own of
        None \<Rightarrow> dflt
      | Some v \<Rightarrow> if v = [] \<or> js_trim v = [] then dflt else Some v)"

definition select_targets ::
  "config \<Rightarrow> string option \<Rightarrow> string option \<Rightarrow> misub list \<Rightarrow> profile list \<Rightarrow> int
     \<Rightarrow> reply + selection" where
  "select_targets cfg tok pid misubs profiles now_ms =
     (case pid of
        Some ident \<Rightarrow>
          if ident = [] then
            (if \<not> truthy tok \<or> tok \<noteq> mytoken cfg then Inl (plain_reply 403 ''Invalid Token'')
             else Inr \<lparr>targetMisubs = filter sub_enabled misubs, subName = FileName cfg,
                       effectiveSubConverter = cfg_subConverter cfg,
                       effectiveSubConfig = cfg_subConfig cfg, isProfileExpired = False\<rparr>)
          else if \<not> truthy tok \<or> tok \<noteq> profileToken cfg then
            Inl (plain_reply 403 ''Invalid Profile Token'')
          else
            (case find (profile_matches ident) profiles of
               None \<Rightarrow> Inl (plain_reply 404 ''Profile not found or disabled'')
             | Some p \<Rightarrow>
                 if p_enabled p then
                   Inr \<lparr>targetMisubs =
                          (if profile_expired p now_ms then [expired_entry]
                           else filter (\<lambda>item. sub_enabled item \<and> belongsToProfile p item)
                                  misubs),
                        subName = p_name p,
                        effectiveSubConverter = override (p_subConverter p) (cfg_subConverter cfg),
                        effectiveSubConfig = override (p_subConfig p) (cfg_subConfig cfg),
                        isProfileExpired = profile_expired p now_ms\<rparr>
                 else Inl (plain_reply 404 ''Profile not found or disabled''))
      | None \<Rightarrow>
          if \<not> truthy tok \<or> tok \<noteq> mytoken cfg then Inl (plain_reply 403 ''Invalid Token'')
          else Inr \<lparr>targetMisubs = filter sub_enabled misubs, subName = FileName cfg,
                    effectiveSubConverter = cfg_subConverter cfg,
                    effectiveSubConfig = cfg_subConfig cfg, isProfileExpired = False\<rparr>)"

subsection \<open>The traffic node and the responses served without the converter\<close>

definition totalRemainingBytes :: "misub list \<Rightarrow> int" where
  "totalRemainingBytes subs =
     foldl (\<lambda>acc sub.
              case sub_userInfo sub of
                None \<Rightarrow> acc
              | Some u \<Rightarrow>
                  if sub_enabled sub \<and> 0 < total u then
                    acc + max 0 (total u - ((case upload u of None \<Rightarrow> 0 | Some n \<Rightarrow> n)
                                          + (case download u of None \<Rightarrow> 0 | Some n \<Rightarrow> n)))
                  else acc)
       0 subs"

text \<open>The name of the traffic node starts with the UTF-8 bytes of a Chinese phrase
  (``traffic left'') and the sign U+226B.\<close>

definition traffic_text :: string where
  "traffic_text =
     [CHR 0xE6, CHR 0xB5, CHR 0x81, CHR 0xE9, CHR 0x87, CHR 0x8F, CHR 0xE5, CHR 0x89,
      CHR 0xA9, CHR 0xE4, CHR 0xBD, CHR 0x99, CHR 0x20, CHR 0xE2, CHR 0x89, CHR 0xAB,
      CHR 0x20]"

definition prependedContentForSubconverter ::
  "collab \<Rightarrow> config \<Rightarrow> selection \<Rightarrow> string option" where
  "prependedContentForSubconverter C cfg sel =
     (if isProfileExpired sel then Some []
      else if enableTrafficNode cfg \<noteq> Some False \<and> 0 < totalRemainingBytes (targetMisubs sel)
      then map_option
             (\<lambda>n. ''trojan://00000000-0000-0000-0000-000000000000@127.0.0.1:443#'' @ n)
             (encodeURIComponent
                (traffic_text @ formatBytes C (totalRemainingBytes (targetMisubs sel))))
      else Some [])"

definition base_headers :: headers where
  "base_headers =
     [(''Content-Type'', ''text/plain; charset=utf-8''),
      (''Cache-Control'', ''no-store, no-cache'')]"

definition with_entries :: "headers \<Rightarrow> headers \<Rightarrow> headers" where
  "with_entries h entries = foldl (\<lambda>h (k, v). obj_set h k v) h entries"

text \<open>\<open>new Response(body, {headers: obj})\<close> for a plain object \<open>obj\<close>.\<close>

definition respond :: "(string \<Rightarrow> string option) \<Rightarrow> string \<Rightarrow> headers \<Rightarrow> reply option" where
  "respond platform b obj = map_option (new_Response 200 b) (new_Headers platform obj)"

definition str :: "string option \<Rightarrow> string" where
  "str v = (case v of None \<Rightarrow> [] | Some s \<Rightarrow> s)"

record conversion =
  call :: converter_call
  nodes :: string

definition serve :: "collab \<Rightarrow> request_context \<Rightarrow> selection \<Rightarrow> string \<Rightarrow> (reply + conversion) option" where
  "serve C ctx sel converter =
     (case prependedContentForSubconverter C (settings ctx) sel of
        None \<Rightarrow> None
      | Some prepended \<Rightarrow>
          (let pid = profileIdentifier C;
               ans = resolveNodeListWithCache C
                       \<lparr>cacheKey = generateCacheKey C (if truthy pid then ''profile'' else ''token'')
                                    (if truthy pid then str pid else str (token C)),
                        forceRefresh = (searchParams_has (searchParams ctx) ''refresh''
                                        \<or> searchParams_has (searchParams ctx) ''nocache''),
                        refresh_targetMisubs = targetMisubs sel,
                        refresh_prependedContent = prepended,
                        targetMisubsCount = length (targetMisubs sel)\<rparr>;
               targetFormat = determineTargetFormat C
           in if js_includes (lower (userAgentHeader ctx)) ''nekobox''
                 \<and> js_includes (lower (combinedNodeList ans)) ''security=reality''
                 \<and> targetFormat \<noteq> ''base64''
              then (case btoa_utf8 (combinedNodeList ans) of
                      None \<Rightarrow> None
                    | Some fallbackContent \<Rightarrow>
                        map_option Inl
                          (respond (header_bytes C) fallbackContent
                             (obj_set (obj_set (with_entries base_headers (cacheHeaders ans))
                                         ''X-MiSub-Fallback'' ''base64'')
                                ''X-MiSub-Reason'' ''nekobox-reality'')))
              else if targetFormat = ''base64''
              then (case btoa_utf8 (if isProfileExpired sel then DEFAULT_EXPIRED_NODE @ [CHR 0x0A]
                                    else combinedNodeList ans) of
                      None \<Rightarrow> None
                    | Some b \<Rightarrow>
                        map_option Inl
                          (respond (header_bytes C) b
                             (with_entries base_headers (cacheHeaders ans))))
              else
                (case btoa_utf8 (combinedNodeList ans) of
                   None \<Rightarrow> None
                 | Some base64Content \<Rightarrow>
                     (let callbackToken = getCallbackToken (hmac_sha256 C) (env ctx);
                          callbackPath = (if truthy pid then ''/'' @ str (token C) @ ''/'' @ str pid
                                          else ''/'' @ str (token C));
                          url = url_protocol ctx @ ''//'' @ url_host ctx @ callbackPath
                                @ ''?target=base64&callback_token='' @ callbackToken
                      in if searchParams_get (searchParams ctx) ''callback_token''
                            = Some callbackToken
                         then map_option Inl (respond (header_bytes C) base64Content base_headers)
                         else Some (Inr \<lparr>call =
                                           \<lparr>candidates = getSubconverterCandidates C converter,
                                            cc_targetFormat = targetFormat,
                                            callbackUrl = url,
                                            cc_subConfig = effectiveSubConfig sel,
                                            cc_subName = subName sel,
                                            cc_cacheHeaders = cacheHeaders ans,
                                            timeout = 15000\<rparr>,
                                         nodes = combinedNodeList ans\<rparr>)))))"

text \<open>Everything up to the call of the converter: a response returned early
  (\<open>Inl\<close>), or the call the handler is about to make (\<open>Inr\<close>).\<close>

definition before_converter :: "collab \<Rightarrow> request_context \<Rightarrow> (reply + conversion) option" where
  "before_converter C ctx =
     (if disguise_enabled (settings ctx) \<and> isBrowserAgent C (userAgentHeader ctx)
         \<and> \<not> searchParams_has (searchParams ctx) ''callback_token'' \<and> \<not> authMiddleware C
      then Some (Inl (createDisguiseResponse C))
      else
        (case select_targets (settings ctx) (token C) (profileIdentifier C) (allMisubs ctx)
                (allProfiles ctx) (now ctx) of
           Inl r \<Rightarrow> Some (Inl r)
         | Inr sel \<Rightarrow>
             (case effectiveSubConverter sel of
                None \<Rightarrow> Some (Inl (plain_reply 500 ''Subconverter backend is not configured.''))
              | Some converter \<Rightarrow>
                  if converter = [] \<or> js_trim converter = []
                  then Some (Inl (plain_reply 500 ''Subconverter backend is not configured.''))
                  else serve C ctx sel converter)))"

subsection \<open>The converter call and the fallback\<close>

text \<open>\<open>fetchFromSubconverter\<close> either returns the converter's response or throws, when
  every candidate endpoint failed or timed out. The list \<open>triedEndpoints\<close> is never
  added to, so the message of a truthy error ends with the joined empty list. The
  headers of the fallback are built after the \<open>catch\<close>: an exception of
  \<open>fallbackHeaders.set\<close> is caught by nothing.\<close>

definition fallback_headers ::
  "(string \<Rightarrow> string option) \<Rightarrow> headers \<Rightarrow> string \<Rightarrow> headers option" where
  "fallback_headers platform ch errorMessage =
     (case new_Headers platform (base_headers @ [(''X-MiSub-Fallback'', ''base64'')]) of
        None \<Rightarrow> None
      | Some h0 \<Rightarrow>
          (case fill (Headers_set platform) h0 ch of
             None \<Rightarrow> None
           | Some h1 \<Rightarrow> Headers_set platform h1 ''X-MiSub-Error'' (utf16_take 200 errorMessage)))"

definition errorMessage :: "thrown \<Rightarrow> string option" where
  "errorMessage lastError =
     (case lastError of
        Falsy \<Rightarrow> Some ''Unknown subconverter error''
      | Err message \<Rightarrow> map_option (\<lambda>m. m @ ''. Tried: '' @ join_with '', '' []) message)"

definition after_converter :: "collab \<Rightarrow> conversion \<Rightarrow> reply option" where
  "after_converter C st =
     (case fetchFromSubconverter C (call st) of
        Inr response \<Rightarrow> Some response
      | Inl lastError \<Rightarrow>
          (case errorMessage lastError of
             None \<Rightarrow> None
           | Some msg \<Rightarrow>
               if nodes st \<noteq> [] then
                 (case fallback_headers (header_bytes C) (cc_cacheHeaders (call st)) msg of
                    None \<Rightarrow> None
                  | Some fallbackHeaders \<Rightarrow>
                      map_option (\<lambda>fallbackContent. new_Response 200 fallbackContent fallbackHeaders)
                        (btoa_utf8 (nodes st)))
               else Some (plain_reply 502 (''Error connecting to subconverter: '' @ msg))))"

definition handleMisubRequest :: "collab \<Rightarrow> request_context \<Rightarrow> reply option" where
  "handleMisubRequest C ctx =
     (case before_converter C ctx of
        None \<Rightarrow> None
      | Some (Inl r) \<Rightarrow> Some r
      | Some (Inr st) \<Rightarrow> after_converter C st)"

subsection \<open>Example data\<close>

text \<open>A stand-in for the signature primitive (the first 32 bytes of key and data), a
  token request and a profile that expired at time 1000, used to evaluate the handler.\<close>

definition example_hmac :: "string \<Rightarrow> string \<Rightarrow> string" where
  "example_hmac key data = take 32 (key @ data @ replicate 32 (CHR 0x00))"

definition example_settings :: config where
  "example_settings =
     \<lparr>FileName = ''MiSub'', mytoken = Some ''tok'', profileToken = Some ''profiles'',
      cfg_subConverter = Some ''url.v1.mk'', cfg_subConfig = None, disguise_enabled = False,
      enableTrafficNode = None\<rparr>"

definition example_source :: misub where
  "example_source =
     \<lparr>sub_id = ''1'', sub_url = ''https://feed.example/sub'', sub_name = ''A'',
      sub_enabled = True, sub_userInfo = None, isExpiredNode = False\<rparr>"

definition example_profile :: profile where
  "example_profile =
     \<lparr>p_id = ''p1'', p_customId = Some ''work'', p_name = ''Work'', p_enabled = True,
      p_subscriptions = [''1''], p_manualNodes = [], p_expiresAt = Some (Time 1000),
      p_subConverter = None, p_subConfig = None\<rparr>"

definition example_collab :: collab where
  "example_collab =
     \<lparr>isBrowserAgent = (\<lambda>ua. False), authMiddleware = False,
      createDisguiseResponse = plain_reply 200 [],
      token = Some ''tok'', profileIdentifier = None,
      determineTargetFormat = ''clash'',
      formatBytes = (\<lambda>n. ''0 B''),
      generateCacheKey = (\<lambda>kind ident. kind @ '':'' @ ident),
      resolveNodeListWithCache =
        (\<lambda>q. \<lparr>combinedNodeList = ''trojan://p@h.example:443#n1'',
               cacheHeaders = [(''X-Cache-Status'', ''HIT'')]\<rparr>),
      hmac_sha256 = example_hmac,
      getSubconverterCandidates = (\<lambda>h. [''https://'' @ h]),
      fetchFromSubconverter = (\<lambda>c. Inl (Err (Some ''All subconverter endpoints failed''))),
      header_bytes = Some\<rparr>"

definition example_request :: request_context where
  "example_request =
     \<lparr>userAgentHeader = ''clash-verge/v1.3.8'', url_protocol = ''https:'',
      url_host = ''sub.example'', searchParams = [], env = example_env, now = 0,
      settings = example_settings, allMisubs = [example_source],
      allProfiles = [example_profile]\<rparr>"

definition expired_collab :: collab where
  "expired_collab =
     example_collab\<lparr>token := Some ''profiles'', profileIdentifier := Some ''work'',
                    determineTargetFormat := ''base64''\<rparr>"

definition expired_request :: request_context where
  "expired_request = example_request\<lparr>now := 2000\<rparr>"

text \<open>A converter client whose error has a message of two lines.\<close>

definition multiline_error :: thrown where
  "multiline_error =
     Err (Some (''All subconverter endpoints failed:'' @ [CHR 0x0A]
                @ ''https://url.v1.mk: timeout''))"

definition failing_converter :: collab where
  "failing_converter = example_collab\<lparr>fetchFromSubconverter := (\<lambda>c. Inl multiline_error)\<rparr>"

text \<open>The expired profile asked for by a Clash client and by a NekoBox client, for whom
  the cache manager answers with a cached list that has a Reality node.\<close>

definition expired_clash :: collab where
  "expired_clash = expired_collab\<lparr>determineTargetFormat := ''clash''\<rparr>"

definition expired_nekobox :: collab where
  "expired_nekobox =
     expired_clash
       \<lparr>resolveNodeListWithCache :=
          (\<lambda>q. \<lparr>combinedNodeList = ''vless://u@h.example:443?security=reality&type=tcp#n1'',
                 cacheHeaders = [(''X-Cache-Status'', ''HIT'')]\<rparr>)\<rparr>"

definition nekobox_request :: request_context where
  "nekobox_request = expired_request\<lparr>userAgentHeader := ''NekoBox/Android/1.3.1''\<rparr>"

subsection \<open>Headers and truncation\<close>

lemma utf16_take_length: "length (utf16_take n s) \<le> 3 * n"
proof (induction n arbitrary: s rule: less_induct)
  case (less n)
  show ?case
  proof (cases n)
    case 0
    then show ?thesis by simp
  next
    case (Suc m)
    have b1: "length (utf16_take m t) \<le> 3 * m" for t
      using less [of m t] Suc by simp
    have b2: "0 < m \<Longrightarrow> Suc (length (utf16_take (m - Suc 0) t)) \<le> 3 * m" for t
    proof -
      assume "0 < m"
      moreover have "length (utf16_take (m - Suc 0) t) \<le> 3 * (m - Suc 0)"
        using less [of "m - Suc 0" t] Suc by simp
      ultimately show ?thesis by arith
    qed
    show ?thesis
    proof (cases s)
      case Nil
      then show ?thesis using Suc by simp
    next
      case (Cons a r)
      then show ?thesis using Suc
        by (auto simp: high_surrogate_def Let_def split: list.splits intro: b1 b2 le_SucI)
    qed
  qed
qed

lemma utf16_take_ascii: "list_all (\<lambda>c. cu c < 128) s \<Longrightarrow> utf16_take n s = take n s"
  by (induction n s rule: utf16_take.induct) auto

lemma fst_obj_set: "fst ` set (obj_set h k v) = insert k (fst ` set h)"
  by (induction h k v rule: obj_set.induct) auto

lemma map_of_obj_set_same: "map_of (obj_set h k v) k = Some v"
  by (induction h k v rule: obj_set.induct) auto

lemma Headers_set_present:
  assumes "Headers_set platform h k v = Some h'" and "k' \<in> fst ` set h"
  shows "k' \<in> fst ` set h'"
proof -
  from assms(1) obtain z where "h' = obj_set h (lower k) z"
    by (auto simp: Headers_set_def)
  then have "fst ` set h' = insert (lower k) (fst ` set h)"
    by (simp only: fst_obj_set)
  with assms(2) show ?thesis by blast
qed

lemma fill_set_present:
  "fill (Headers_set platform) h ch = Some h' \<Longrightarrow> k' \<in> fst ` set h \<Longrightarrow> k' \<in> fst ` set h'"
proof (induction ch arbitrary: h)
  case Nil
  then show ?case by simp
next
  case (Cons e ch)
  obtain k v where e: "e = (k, v)" by (cases e)
  from Cons.prems(1) e obtain h1 where
    h1: "Headers_set platform h k v = Some h1" "fill (Headers_set platform) h1 ch = Some h'"
    by (cases "Headers_set platform h k v") simp_all
  have "k' \<in> fst ` set h1"
    using Headers_set_present [OF h1(1) Cons.prems(2)] .
  then show ?case using Cons.IH [OF h1(2)] by simp
qed

lemma new_Headers_fallback:
  "new_Headers platform (base_headers @ [(''X-MiSub-Fallback'', ''base64'')]) =
     Some [(''content-type'', ''text/plain; charset=utf-8''),
           (''cache-control'', ''no-store, no-cache''), (''x-misub-fallback'', ''base64'')]"
  by code_simp

lemma lower_fallback: "lower ''X-MiSub-Fallback'' = ''x-misub-fallback''"
  by code_simp

lemma lower_error: "lower ''X-MiSub-Error'' = ''x-misub-error''"
  by code_simp

text \<open>When the headers of the fallback can be built, they hold the fallback flag, a
  content type and, as \<open>X-MiSub-Error\<close>, the first 200 code units of the message
  without the white space at their ends; they cannot be built when that value is
  refused.\<close>

lemma fallback_headers_Some:
  assumes "fallback_headers platform ch m = Some hs"
  shows "Headers_get hs ''X-MiSub-Fallback'' \<noteq> None"
    and "map_of hs ''content-type'' \<noteq> None"
    and "\<exists>b. ByteString platform (utf16_take 200 m) = Some b
             \<and> valid_value (normalize_value b)
             \<and> Headers_get hs ''X-MiSub-Error'' = Some (normalize_value b)"
proof -
  let ?h0 = "[(''content-type'', ''text/plain; charset=utf-8''),
              (''cache-control'', ''no-store, no-cache''), (''x-misub-fallback'', ''base64'')]"
  from assms obtain h1 where
    h1: "fill (Headers_set platform) ?h0 ch = Some h1"
    and hs: "Headers_set platform h1 ''X-MiSub-Error'' (utf16_take 200 m) = Some hs"
    by (auto simp: fallback_headers_def new_Headers_fallback split: option.splits)
  have "''x-misub-fallback'' \<in> fst ` set h1" "''content-type'' \<in> fst ` set h1"
    using fill_set_present [OF h1] by simp_all
  then have in_hs: "''x-misub-fallback'' \<in> fst ` set hs" "''content-type'' \<in> fst ` set hs"
    using Headers_set_present [OF hs] by simp_all
  show "Headers_get hs ''X-MiSub-Fallback'' \<noteq> None"
    using in_hs(1) by (simp add: Headers_get_def lower_fallback map_of_eq_None_iff)
  show "map_of hs ''content-type'' \<noteq> None"
    using in_hs(2) by (simp add: map_of_eq_None_iff)
  from hs obtain x where
    x: "header_value platform ''X-MiSub-Error'' (utf16_take 200 m) = Some x"
       "hs = obj_set h1 ''x-misub-error'' x"
    by (auto simp: Headers_set_def lower_error)
  from x(1) obtain b where
    b: "ByteString platform (utf16_take 200 m) = Some b" "valid_value (normalize_value b)"
       "x = normalize_value b"
    by (auto simp: header_value_def split: option.splits if_splits)
  have "Headers_get hs ''X-MiSub-Error'' = Some (normalize_value b)"
    by (simp add: Headers_get_def lower_error x(2) b(3) map_of_obj_set_same)
  with b show "\<exists>b. ByteString platform (utf16_take 200 m) = Some b
             \<and> valid_value (normalize_value b)
             \<and> Headers_get hs ''X-MiSub-Error'' = Some (normalize_value b)"
    by blast
qed

lemma fallback_headers_refused:
  "header_value platform ''X-MiSub-Error'' (utf16_take 200 m) = None
     \<Longrightarrow> fallback_headers platform ch m = None"
  by (simp add: fallback_headers_def Headers_set_def split: option.splits)

lemma b64_encode_length: "length (b64_encode ns) = 4 * ((length ns + 2) div 3)"
proof (induction ns rule: b64_encode.induct)
  case (4 a b c r)
  have "(length (a # b # c # r) + 2) div 3 = Suc ((length r + 2) div 3)"
    by simp
  then show ?case using 4 by simp
qed simp_all

lemma btoa_length: "length (btoa s) = 4 * ((length s + 2) div 3)"
  by (simp add: btoa_def b64_encode_length)

lemma btoa_utf8_Some: "btoa_utf8 s = Some b \<Longrightarrow> b = btoa s"
  by (auto simp: btoa_utf8_def utf8_binary_def split: if_splits)

lemma serve_Inr:
  assumes "serve C ctx sel conv = Some (Inr st)"
  shows "btoa_utf8 (nodes st) = Some (btoa (nodes st))
         \<and> (\<exists>q. nodes st = combinedNodeList (resolveNodeListWithCache C q)
               \<and> cc_cacheHeaders (call st) = cacheHeaders (resolveNodeListWithCache C q))"
proof -
  obtain prepended where p: "prependedContentForSubconverter C (settings ctx) sel = Some prepended"
    using assms by (cases "prependedContentForSubconverter C (settings ctx) sel") (simp_all add: serve_def)
  define q where "q = \<lparr>cacheKey = generateCacheKey C (if truthy (profileIdentifier C) then ''profile'' else ''token'')
                                    (if truthy (profileIdentifier C) then str (profileIdentifier C) else str (token C)),
                        forceRefresh = (searchParams_has (searchParams ctx) ''refresh''
                                        \<or> searchParams_has (searchParams ctx) ''nocache''),
                        refresh_targetMisubs = targetMisubs sel,
                        refresh_prependedContent = prepended,
                        targetMisubsCount = length (targetMisubs sel)\<rparr>"
  define ans where "ans = resolveNodeListWithCache C q"
  from assms p have "nodes st = combinedNodeList ans \<and> cc_cacheHeaders (call st) = cacheHeaders ans
      \<and> btoa_utf8 (combinedNodeList ans) \<noteq> None"
    unfolding serve_def Let_def ans_def q_def
    by (simp split: if_splits option.splits) auto
  then show ?thesis
    using btoa_utf8_Some [of "nodes st"] unfolding ans_def by auto
qed


lemma before_converter_Inr:
  assumes "before_converter C ctx = Some (Inr st)"
  shows "\<exists>sel conv. serve C ctx sel conv = Some (Inr st)"
proof -
  from assms obtain sel where
    sel: "select_targets (settings ctx) (token C) (profileIdentifier C) (allMisubs ctx)
            (allProfiles ctx) (now ctx) = Inr sel"
    unfolding before_converter_def
    by (cases "select_targets (settings ctx) (token C) (profileIdentifier C) (allMisubs ctx)
            (allProfiles ctx) (now ctx)") (simp_all split: if_splits)
  from assms sel obtain conv where "effectiveSubConverter sel = Some conv"
    unfolding before_converter_def
    by (cases "effectiveSubConverter sel") (simp_all split: if_splits)
  with assms sel have "serve C ctx sel conv = Some (Inr st)"
    unfolding before_converter_def by (simp split: if_splits)
  then show ?thesis by blast
qed

lemma serve_fetch:
  "serve (C\<lparr>fetchFromSubconverter := f\<rparr>) ctx sel conv = serve C ctx sel conv"
  by (simp add: serve_def prependedContentForSubconverter_def cong: option.case_cong if_cong)

lemma before_converter_fetch:
  "before_converter (C\<lparr>fetchFromSubconverter := f\<rparr>) ctx = before_converter C ctx"
  by (simp add: before_converter_def serve_fetch cong: sum.case_cong option.case_cong if_cong)

lemma example_reaches_converter:
  "before_converter example_collab example_request
     = Some (Inr \<lparr>call = \<lparr>candidates = [''https://url.v1.mk''], cc_targetFormat = ''clash'',
                             callbackUrl = ''https://sub.example/tok?target=base64&callback_token=7333637265746361'',
                             cc_subConfig = None, cc_subName = ''MiSub'',
                             cc_cacheHeaders = [(''X-Cache-Status'', ''HIT'')], timeout = 15000\<rparr>,
                     nodes = ''trojan://p@h.example:443#n1''\<rparr>)"
  by code_simp

subsection \<open>Degradation when the converter fails\<close>

text \<open>When the handler reaches the converter call, the converter fails and the
  aggregated node list is not empty, the handler answers as the headers of the
  fallback allow: with them it answers 200, the body is the Base64 encoding of the
  aggregated node list and the headers are the ones built; without them (the
  \<open>TypeError\<close> of \<open>Headers.set\<close>) the promise is rejected.\<close>

lemma converter_failure_reply:
  assumes reach: "before_converter C ctx = Some (Inr st)"
      and fail: "fetchFromSubconverter C (call st) = Inl e" "errorMessage e = Some m"
      and content: "nodes st \<noteq> []"
  shows "handleMisubRequest C ctx
           = (case fallback_headers (header_bytes C) (cc_cacheHeaders (call st)) m of
                None \<Rightarrow> None
              | Some hs \<Rightarrow>
                  Some \<lparr>reply_status = 200, reply_body = btoa (nodes st), reply_headers = hs\<rparr>)"
proof -
  obtain sel conv where s: "serve C ctx sel conv = Some (Inr st)"
    using before_converter_Inr [OF reach] by blast
  have b: "btoa_utf8 (nodes st) = Some (btoa (nodes st))"
    using serve_Inr [OF s] by simp
  show ?thesis
  proof (cases "fallback_headers (header_bytes C) (cc_cacheHeaders (call st)) m")
    case None
    then show ?thesis
      using reach fail content by (simp add: handleMisubRequest_def after_converter_def)
  next
    case (Some hs)
    then show ?thesis
      using reach fail content b fallback_headers_Some(2) [OF Some]
      by (simp add: handleMisubRequest_def after_converter_def new_Response_def)
  qed
qed

lemma multiline_refused:
  "header_value Some ''X-MiSub-Error''
     (utf16_take 200 (''All subconverter endpoints failed:'' @ [CHR 0x0A]
                      @ ''https://url.v1.mk: timeout'' @ ''. Tried: '')) = None"
  by code_simp

text \<open>Claim C1 at a failing input: the request of a Clash client with a valid token;
  the cache manager answers with the aggregated list \<open>trojan://p@h.example:443#n1\<close>;
  every candidate of the converter fails and \<open>fetchFromSubconverter\<close> throws an error
  whose message has two lines. The handler reaches the converter call with a non-empty
  node list, and its promise is rejected: the statement
  \<open>fallbackHeaders.set('X-MiSub-Error', ...)\<close> after the \<open>catch\<close> throws a
  \<open>TypeError\<close> on the line feed, and the client is not answered with the Base64
  fallback.\<close>

theorem converter_failure_header_rejected:
  "before_converter failing_converter example_request
     = Some (Inr \<lparr>call = \<lparr>candidates = [''https://url.v1.mk''], cc_targetFormat = ''clash'',
                             callbackUrl = ''https://sub.example/tok?target=base64&callback_token=7333637265746361'',
                             cc_subConfig = None, cc_subName = ''MiSub'',
                             cc_cacheHeaders = [(''X-Cache-Status'', ''HIT'')], timeout = 15000\<rparr>,
                     nodes = ''trojan://p@h.example:443#n1''\<rparr>)
   \<and> fetchFromSubconverter failing_converter
         \<lparr>candidates = [''https://url.v1.mk''], cc_targetFormat = ''clash'',
          callbackUrl = ''https://sub.example/tok?target=base64&callback_token=7333637265746361'',
          cc_subConfig = None, cc_subName = ''MiSub'',
          cc_cacheHeaders = [(''X-Cache-Status'', ''HIT'')], timeout = 15000\<rparr>
       = Inl (Err (Some (''All subconverter endpoints failed:'' @ [CHR 0x0A]
                         @ ''https://url.v1.mk: timeout'')))
   \<and> handleMisubRequest failing_converter example_request = None"
proof -
  define st where
    "st = \<lparr>call = \<lparr>candidates = [''https://url.v1.mk''], cc_targetFormat = ''clash'',
                     callbackUrl = ''https://sub.example/tok?target=base64&callback_token=7333637265746361'',
                     cc_subConfig = None, cc_subName = ''MiSub'',
                     cc_cacheHeaders = [(''X-Cache-Status'', ''HIT'')], timeout = 15000\<rparr>,
             nodes = ''trojan://p@h.example:443#n1''\<rparr>"
  have reach: "before_converter failing_converter example_request = Some (Inr st)"
    unfolding st_def failing_converter_def before_converter_fetch
    by (rule example_reaches_converter)
  have fail: "fetchFromSubconverter failing_converter (call st) = Inl multiline_error"
    by (simp add: failing_converter_def)
  have msg: "errorMessage multiline_error
               = Some (''All subconverter endpoints failed:'' @ [CHR 0x0A]
                       @ ''https://url.v1.mk: timeout'' @ ''. Tried: '')"
    by (simp add: errorMessage_def multiline_error_def)
  have content: "nodes st \<noteq> []"
    by (simp add: st_def)
  have platform: "header_bytes failing_converter = Some"
    by (simp add: failing_converter_def example_collab_def)
  have "fallback_headers (header_bytes failing_converter) (cc_cacheHeaders (call st))
          (''All subconverter endpoints failed:'' @ [CHR 0x0A]
           @ ''https://url.v1.mk: timeout'' @ ''. Tried: '') = None"
    unfolding platform by (rule fallback_headers_refused) (rule multiline_refused)
  then have "handleMisubRequest failing_converter example_request = None"
    using converter_failure_reply [OF reach fail msg content] by simp
  moreover have "fetchFromSubconverter failing_converter (call st)
                   = Inl (Err (Some (''All subconverter endpoints failed:'' @ [CHR 0x0A]
                                     @ ''https://url.v1.mk: timeout'')))"
    using fail by (simp add: multiline_error_def)
  ultimately show ?thesis
    using reach unfolding st_def by simp
qed

subsection \<open>Expired profiles\<close>

lemma select_targets_expired:
  assumes "truthy tok" "tok = profileToken cfg" "ident \<noteq> []"
      and "find (profile_matches ident) profiles = Some p" "p_enabled p"
      and "p_expiresAt p = Some (Time expiry)" "expiry < now_ms"
  shows "select_targets cfg tok (Some ident) misubs profiles now_ms
         = Inr \<lparr>targetMisubs = [expired_entry], subName = p_name p,
                 effectiveSubConverter = override (p_subConverter p) (cfg_subConverter cfg),
                 effectiveSubConfig = override (p_subConfig p) (cfg_subConfig cfg),
                 isProfileExpired = True\<rparr>"
  using assms by (simp add: select_targets_def profile_expired_def)

lemma expired_valid: "utf8_valid (DEFAULT_EXPIRED_NODE @ [CHR 0x0A])"
  by code_simp

lemma expired_body:
  "btoa_utf8 (DEFAULT_EXPIRED_NODE @ [CHR 0x0A]) = Some (btoa (DEFAULT_EXPIRED_NODE @ [CHR 0x0A]))"
  by (simp add: btoa_utf8_def utf8_binary_def expired_valid)

text \<open>For a request with a valid profile token that names an enabled profile whose
  \<open>expiresAt\<close> is in the past, the sources resolved for the profile are exactly the one
  sentinel entry whose link is \<open>DEFAULT_EXPIRED_NODE\<close>, whatever the profile's
  \<open>subscriptions\<close> and \<open>manualNodes\<close> and whatever the stored sources are.\<close>

lemma expired_profile_sources:
  assumes tok: "truthy (token C)" "token C = profileToken (settings ctx)"
      and ident: "profileIdentifier C = Some ident" "ident \<noteq> []"
      and prof: "find (profile_matches ident) (allProfiles ctx) = Some p" "p_enabled p"
      and expired: "p_expiresAt p = Some (Time expiry)" "expiry < now ctx"
  shows "\<exists>sel. select_targets (settings ctx) (token C) (profileIdentifier C) (allMisubs ctx)
                (allProfiles ctx) (now ctx) = Inr sel
             \<and> targetMisubs sel = [expired_entry] \<and> isProfileExpired sel
             \<and> map sub_url (targetMisubs sel) = [DEFAULT_EXPIRED_NODE]"
  using select_targets_expired [OF tok ident(2) prof expired] ident(1)
  by (simp add: expired_entry_def)

text \<open>The branch for the target \<open>base64\<close> puts the sentinel line in the place of the
  list the cache manager returned.\<close>

lemma expired_profile_base64:
  assumes tok: "truthy (token C)" "token C = profileToken (settings ctx)"
      and ident: "profileIdentifier C = Some ident" "ident \<noteq> []"
      and prof: "find (profile_matches ident) (allProfiles ctx) = Some p" "p_enabled p"
      and expired: "p_expiresAt p = Some (Time expiry)" "expiry < now ctx"
      and fmt: "determineTargetFormat C = ''base64''"
      and vis: "\<not> (disguise_enabled (settings ctx) \<and> isBrowserAgent C (userAgentHeader ctx)
                     \<and> \<not> searchParams_has (searchParams ctx) ''callback_token''
                     \<and> \<not> authMiddleware C)"
      and conv: "override (p_subConverter p) (cfg_subConverter (settings ctx)) = Some conv"
                "conv \<noteq> []" "js_trim conv \<noteq> []"
  shows "\<exists>q. handleMisubRequest C ctx
               = respond (header_bytes C) (btoa (DEFAULT_EXPIRED_NODE @ [CHR 0x0A]))
                   (with_entries base_headers (cacheHeaders (resolveNodeListWithCache C q)))"
proof -
  let ?sel = "\<lparr>targetMisubs = [expired_entry], subName = p_name p,
               effectiveSubConverter = override (p_subConverter p) (cfg_subConverter (settings ctx)),
               effectiveSubConfig = override (p_subConfig p) (cfg_subConfig (settings ctx)),
               isProfileExpired = True\<rparr>"
  have sel: "select_targets (settings ctx) (token C) (profileIdentifier C) (allMisubs ctx)
               (allProfiles ctx) (now ctx) = Inr ?sel"
    using select_targets_expired [OF tok ident(2) prof expired] ident(1) by simp
  have "\<exists>q. serve C ctx ?sel conv
               = map_option Inl
                   (respond (header_bytes C) (btoa (DEFAULT_EXPIRED_NODE @ [CHR 0x0A]))
                      (with_entries base_headers (cacheHeaders (resolveNodeListWithCache C q))))"
    using fmt expired_body
    by (auto simp: serve_def prependedContentForSubconverter_def Let_def)
  then obtain q where
    s: "serve C ctx ?sel conv
          = map_option Inl
              (respond (header_bytes C) (btoa (DEFAULT_EXPIRED_NODE @ [CHR 0x0A]))
                 (with_entries base_headers (cacheHeaders (resolveNodeListWithCache C q))))" ..
  have "handleMisubRequest C ctx
          = respond (header_bytes C) (btoa (DEFAULT_EXPIRED_NODE @ [CHR 0x0A]))
              (with_entries base_headers (cacheHeaders (resolveNodeListWithCache C q)))"
    using vis sel conv s
    unfolding handleMisubRequest_def before_converter_def
    by (cases "respond (header_bytes C) (btoa (DEFAULT_EXPIRED_NODE @ [CHR 0x0A]))
                 (with_entries base_headers (cacheHeaders (resolveNodeListWithCache C q)))") auto
  then show ?thesis ..
qed

lemma cache_hit_headers:
  "new_Headers Some (with_entries base_headers [(''X-Cache-Status'', ''HIT'')])
     = Some [(''content-type'', ''text/plain; charset=utf-8''),
             (''cache-control'', ''no-store, no-cache''), (''x-cache-status'', ''HIT'')]"
  by code_simp

text \<open>Claim C4 at a failing input: the enabled profile \<open>work\<close> expired at time 1000 and
  is asked for at time 2000 with the valid profile token, while the cache manager
  answers with the node list it holds for the profile. The sources of the profile are
  resolved to the one sentinel entry (\<open>expired_profile_sources\<close>), and a client that
  asks for the target \<open>base64\<close> is served the sentinel line. A NekoBox client (target \<open>clash\<close>, a cached list with a
  Reality node) is served the Base64 encoding of the cached list instead: the NekoBox
  branch encodes \<open>combinedNodeList\<close> without looking at \<open>isProfileExpired\<close>, which the
  branch for \<open>base64\<close> does. The fallback after a failure of the converter encodes
  \<open>combinedNodeList\<close> in the same way (\<open>converter_failure_reply\<close>).\<close>

theorem expired_profile_served_cached_list:
  "handleMisubRequest expired_collab expired_request
       = Some \<lparr>reply_status = 200, reply_body = btoa (DEFAULT_EXPIRED_NODE @ [CHR 0x0A]),
               reply_headers =
                 [(''content-type'', ''text/plain; charset=utf-8''),
                  (''cache-control'', ''no-store, no-cache''),
                  (''x-cache-status'', ''HIT'')]\<rparr>
   \<and> handleMisubRequest expired_nekobox nekobox_request
       = Some \<lparr>reply_status = 200,
               reply_body = btoa ''vless://u@h.example:443?security=reality&type=tcp#n1'',
               reply_headers =
                 [(''content-type'', ''text/plain; charset=utf-8''),
                  (''cache-control'', ''no-store, no-cache''),
                  (''x-cache-status'', ''HIT''), (''x-misub-fallback'', ''base64''),
                  (''x-misub-reason'', ''nekobox-reality'')]\<rparr>
   \<and> btoa ''vless://u@h.example:443?security=reality&type=tcp#n1''
       \<noteq> btoa (DEFAULT_EXPIRED_NODE @ [CHR 0x0A])"
proof -
  have tok: "truthy (token expired_collab)"
            "token expired_collab = profileToken (settings expired_request)"
    by (simp_all add: expired_collab_def expired_request_def example_collab_def
        example_request_def example_settings_def truthy_def)
  have ident: "profileIdentifier expired_collab = Some ''work''" "''work'' \<noteq> []"
    by (simp_all add: expired_collab_def)
  have prof: "find (profile_matches ''work'') (allProfiles expired_request) = Some example_profile"
             "p_enabled example_profile"
    by (simp_all add: expired_request_def example_request_def profile_matches_def
        example_profile_def truthy_def)
  have expired: "p_expiresAt example_profile = Some (Time 1000)" "1000 < now expired_request"
    by (simp_all add: example_profile_def expired_request_def)
  have fmt: "determineTargetFormat expired_collab = ''base64''"
    by (simp add: expired_collab_def)
  have vis: "\<not> (disguise_enabled (settings expired_request)
                 \<and> isBrowserAgent expired_collab (userAgentHeader expired_request)
                 \<and> \<not> searchParams_has (searchParams expired_request) ''callback_token''
                 \<and> \<not> authMiddleware expired_collab)"
    by (simp add: expired_request_def example_request_def example_settings_def)
  have conv: "override (p_subConverter example_profile) (cfg_subConverter (settings expired_request))
                = Some ''url.v1.mk''"
             "''url.v1.mk'' \<noteq> []" "js_trim ''url.v1.mk'' \<noteq> []"
    by (code_simp, simp, code_simp)
  have answer: "cacheHeaders (resolveNodeListWithCache expired_collab q)
                  = [(''X-Cache-Status'', ''HIT'')]" for q
    by (simp add: expired_collab_def example_collab_def)
  have platform: "header_bytes expired_collab = Some"
    by (simp add: expired_collab_def example_collab_def)
  have sentinel:
    "handleMisubRequest expired_collab expired_request
       = Some \<lparr>reply_status = 200, reply_body = btoa (DEFAULT_EXPIRED_NODE @ [CHR 0x0A]),
               reply_headers =
                 [(''content-type'', ''text/plain; charset=utf-8''),
                  (''cache-control'', ''no-store, no-cache''),
                  (''x-cache-status'', ''HIT'')]\<rparr>"
    using expired_profile_base64 [OF tok ident prof expired fmt vis conv]
    by (auto simp: answer platform respond_def cache_hit_headers new_Response_def)
  have literal:
    "handleMisubRequest expired_nekobox nekobox_request
       = Some \<lparr>reply_status = 200,
               reply_body = ''dmxlc3M6Ly91QGguZXhhbXBsZTo0NDM/c2VjdXJpdHk9cmVhbGl0eSZ0eXBlPXRjcCNuMQ=='',
               reply_headers =
                 [(''content-type'', ''text/plain; charset=utf-8''),
                  (''cache-control'', ''no-store, no-cache''),
                  (''x-cache-status'', ''HIT''), (''x-misub-fallback'', ''base64''),
                  (''x-misub-reason'', ''nekobox-reality'')]\<rparr>"
    by code_simp
  have encoded:
    "btoa ''vless://u@h.example:443?security=reality&type=tcp#n1''
       = ''dmxlc3M6Ly91QGguZXhhbXBsZTo0NDM/c2VjdXJpdHk9cmVhbGl0eSZ0eXBlPXRjcCNuMQ==''"
    by code_simp
  have "length (btoa ''vless://u@h.example:443?security=reality&type=tcp#n1'')
          \<noteq> length (btoa (DEFAULT_EXPIRED_NODE @ [CHR 0x0A]))"
    by (simp add: btoa_length DEFAULT_EXPIRED_NODE_def)
  then have differ: "btoa ''vless://u@h.example:443?security=reality&type=tcp#n1''
                       \<noteq> btoa (DEFAULT_EXPIRED_NODE @ [CHR 0x0A])"
    by auto
  show ?thesis
    using sentinel literal differ unfolding encoded by simp
qed

subsection \<open>The callback token\<close>

lemma select_targets_no_profile:
  "\<not> truthy pid \<Longrightarrow>
     select_targets cfg tok pid misubs profiles t = select_targets cfg tok pid misubs profiles t'"
  by (cases pid) (simp_all add: select_targets_def truthy_def)

lemma serve_clock: "serve C (ctx\<lparr>now := t\<rparr>) sel conv = serve C ctx sel conv"
  by (simp add: serve_def cong: option.case_cong if_cong)

lemma before_converter_clock:
  "\<not> truthy (profileIdentifier C) \<Longrightarrow>
     before_converter C (ctx\<lparr>now := t\<rparr>) = before_converter C ctx"
  unfolding before_converter_def
  using select_targets_no_profile [of "profileIdentifier C" "settings ctx" "token C"
      "allMisubs ctx" "allProfiles ctx" t "now ctx"]
  by (simp add: serve_clock cong: sum.case_cong option.case_cong if_cong)

lemma serve_callbackUrl:
  assumes "serve C ctx sel conv = Some (Inr st)"
  shows "\<exists>u. callbackUrl (call st)
             = u @ ''?target=base64&callback_token='' @ getCallbackToken (hmac_sha256 C) (env ctx)"
proof -
  obtain prepended where p: "prependedContentForSubconverter C (settings ctx) sel = Some prepended"
    using assms by (cases "prependedContentForSubconverter C (settings ctx) sel") (simp_all add: serve_def)
  from assms p show ?thesis
    unfolding serve_def Let_def
    by (simp split: if_splits option.splits) auto
qed

lemma getCallbackToken_length: "length (getCallbackToken hmac e) \<le> 16"
  by (simp add: getCallbackToken_def Let_def)

lemma example_now: "example_request\<lparr>now := 0\<rparr> = example_request"
  by (simp add: example_request_def)

text \<open>Claim C9, as stated, fails: the token is not time-limited. With a stand-in for
  the signature primitive, the callback URL the handler builds at time 0 carries the
  token \<open>7333637265746361\<close>, and a request that presents this token
  \<open>10\<^sup>1\<^sup>3\<close> milliseconds (more than three hundred years) later is still answered
  with the raw node list.\<close>

theorem callback_token_never_expires_counterexample:
  "before_converter example_collab (example_request\<lparr>now := 0\<rparr>)
     = Some (Inr \<lparr>call = \<lparr>candidates = [''https://url.v1.mk''], cc_targetFormat = ''clash'',
                             callbackUrl = ''https://sub.example/tok?target=base64&callback_token=7333637265746361'',
                             cc_subConfig = None, cc_subName = ''MiSub'',
                             cc_cacheHeaders = [(''X-Cache-Status'', ''HIT'')], timeout = 15000\<rparr>,
                     nodes = ''trojan://p@h.example:443#n1''\<rparr>)
   \<and> handleMisubRequest example_collab
        (example_request\<lparr>now := 10000000000000,
                          searchParams := [(''callback_token'', ''7333637265746361'')]\<rparr>)
     = Some \<lparr>reply_status = 200, reply_body = ''dHJvamFuOi8vcEBoLmV4YW1wbGU6NDQzI24x'',
             reply_headers = [(''content-type'', ''text/plain; charset=utf-8''),
                              (''cache-control'', ''no-store, no-cache'')]\<rparr>"
proof -
  have "handleMisubRequest example_collab
          (example_request\<lparr>now := 10000000000000,
                            searchParams := [(''callback_token'', ''7333637265746361'')]\<rparr>)
        = Some \<lparr>reply_status = 200, reply_body = ''dHJvamFuOi8vcEBoLmV4YW1wbGU6NDQzI24x'',
                reply_headers = [(''content-type'', ''text/plain; charset=utf-8''),
                                 (''cache-control'', ''no-store, no-cache'')]\<rparr>"
    by code_simp
  then show ?thesis
    unfolding example_now using example_reaches_converter by simp
qed

text \<open>Claim C9, amended: the callback URL handed to the converter carries the token
  \<open>getCallbackToken(env)\<close>, at most 16 characters of the signature of a constant under
  the server secret; the token depends on the secret alone, not on the time of the
  request, and a request without a profile (a callback request among them) is answered
  the same at every time: the token is static and never expires.\<close>

theorem callback_token_static:
  "(COOKIE_SECRET e = COOKIE_SECRET e' \<longrightarrow> getCallbackToken hmac e = getCallbackToken hmac e')
   \<and> length (getCallbackToken hmac e) \<le> 16
   \<and> (before_converter C ctx = Some (Inr st) \<longrightarrow>
         (\<exists>u. callbackUrl (call st)
               = u @ ''?target=base64&callback_token=''
                   @ getCallbackToken (hmac_sha256 C) (env ctx)))
   \<and> getCallbackToken (hmac_sha256 C) (env (ctx\<lparr>now := t\<rparr>))
       = getCallbackToken (hmac_sha256 C) (env ctx)
   \<and> (\<not> truthy (profileIdentifier C) \<longrightarrow>
         handleMisubRequest C (ctx\<lparr>now := t\<rparr>) = handleMisubRequest C ctx)"
proof -
  have "before_converter C ctx = Some (Inr st) \<Longrightarrow>
          \<exists>u. callbackUrl (call st)
               = u @ ''?target=base64&callback_token=''
                   @ getCallbackToken (hmac_sha256 C) (env ctx)"
    using before_converter_Inr [of C ctx st] serve_callbackUrl [of C ctx _ _ st] by blast
  moreover have "\<not> truthy (profileIdentifier C) \<Longrightarrow>
          handleMisubRequest C (ctx\<lparr>now := t\<rparr>) = handleMisubRequest C ctx"
    by (simp add: handleMisubRequest_def before_converter_clock)
  moreover have "COOKIE_SECRET e = COOKIE_SECRET e' \<Longrightarrow>
          getCallbackToken hmac e = getCallbackToken hmac e'"
    by (simp add: getCallbackToken_def)
  ultimately show ?thesis
    using getCallbackToken_length [of hmac e] by simp
qed

theorem callback_token_static_witness:
  "COOKIE_SECRET example_env = COOKIE_SECRET (example_env\<lparr>MISUB_KV := False\<rparr>)
   \<and> getCallbackToken example_hmac example_env
       = getCallbackToken example_hmac (example_env\<lparr>MISUB_KV := False\<rparr>)
   \<and> \<not> truthy (profileIdentifier example_collab)
   \<and> handleMisubRequest example_collab (example_request\<lparr>now := 10000000000000\<rparr>)
       = handleMisubRequest example_collab example_request"
proof -
  have s: "COOKIE_SECRET example_env = COOKIE_SECRET (example_env\<lparr>MISUB_KV := False\<rparr>)"
    by simp
  have p: "\<not> truthy (profileIdentifier example_collab)"
    by (simp add: example_collab_def truthy_def)
  show ?thesis
    using callback_token_static [of example_env "example_env\<lparr>MISUB_KV := False\<rparr>"
        example_hmac example_collab example_request _ 10000000000000] s p
    by blast
qed

section \<open>NodeNormalizer and Aggregator: \<open>generateCombinedNodeList\<close>\<close>

subsection \<open>Decoding: \<open>decodeURIComponent\<close> and \<open>TextDecoder\<close>\<close>

definition hex_val :: "char \<Rightarrow> nat option" where
  "hex_val c =
     (let n = cu c in
      if 48 \<le> n \<and> n \<le> 57 then Some (n - 48)
      else if 65 \<le> n \<and> n \<le> 70 then Some (n - 55)
      else if 97 \<le> n \<and> n \<le> 102 then Some (n - 87)
      else None)"

text \<open>\<open>pct_bytes k s\<close> reads \<open>k\<close> escapes \<open>%XX\<close> from the start of \<open>s\<close>: the bytes they
  denote and the rest of \<open>s\<close>.\<close>

fun pct_bytes :: "nat \<Rightarrow> string \<Rightarrow> (string \<times> string) option" where
  "pct_bytes 0 s = Some ([], s)"
| "pct_bytes (Suc k) (p # h # l # s) =
     (if p = CHR ''%'' then
        (case (hex_val h, hex_val l) of
           (Some x, Some y) \<Rightarrow>
             map_option (\<lambda>(bs, r). (byte (16 * x + y) # bs, r)) (pct_bytes k s)
         | _ \<Rightarrow> None)
      else None)"
| "pct_bytes (Suc k) s = None"

lemma pct_bytes_shorter: "pct_bytes k s = Some (bs, r) \<Longrightarrow> length r \<le> length s"
proof (induction k s arbitrary: bs r rule: pct_bytes.induct)
  case (2 k p h l s)
  then show ?case
    by (fastforce split: if_splits option.splits prod.splits)
qed simp_all

lemma pct_bytes_Suc_shorter:
  assumes "pct_bytes (Suc k) s = Some (bs, r)"
  shows "length r < length s"
proof (cases s)
  case Nil
  then show ?thesis using assms by simp
next
  case s1: (Cons p s1)
  show ?thesis
  proof (cases s1)
    case Nil
    then show ?thesis using assms s1 by simp
  next
    case s2: (Cons h s2)
    show ?thesis
    proof (cases s2)
      case Nil
      then show ?thesis using assms s1 s2 by simp
    next
      case (Cons l s3)
      then show ?thesis
        using assms s1 s2 pct_bytes_shorter [of k s3]
        by (fastforce split: if_splits option.splits prod.splits)
    qed
  qed
qed

text \<open>The number of bytes the leading byte of an escaped sequence announces (the count
  of its leading one bits); 0 where \<open>decodeURIComponent\<close> throws at once.\<close>

definition lead_count :: "char \<Rightarrow> nat" where
  "lead_count b =
     (if 192 \<le> cu b \<and> cu b \<le> 223 then 2
      else if 224 \<le> cu b \<and> cu b \<le> 239 then 3
      else if 240 \<le> cu b \<and> cu b \<le> 247 then 4
      else 0)"

text \<open>\<open>decodeURIComponent\<close>: characters other than \<open>%\<close> are copied; an escape of a byte
  below 128 gives that character; any other escape must start a run of escapes that
  is the UTF-8 encoding of one code point. \<open>None\<close> is the \<open>URIError\<close>.\<close>

function decodeURIComponent :: "string \<Rightarrow> string option" where
  "decodeURIComponent s =
     (case s of
        [] \<Rightarrow> Some []
      | c # t \<Rightarrow>
          if c \<noteq> CHR ''%'' then map_option ((#) c) (decodeURIComponent t)
          else
            (case pct_bytes 1 s of
               None \<Rightarrow> None
             | Some (b1, r1) \<Rightarrow>
                 if list_all (\<lambda>b. cu b < 128) b1 then
                   map_option ((@) b1) (decodeURIComponent r1)
                 else
                   (case pct_bytes (lead_count (hd b1)) s of
                      None \<Rightarrow> None
                    | Some (bs, r) \<Rightarrow>
                        if lead_count (hd b1) \<noteq> 0 \<and> utf8_len bs = lead_count (hd b1)
                        then map_option ((@) bs) (decodeURIComponent r)
                        else None)))"
  by pat_completeness auto
termination
proof (relation "measure length")
  show "wf (measure length)" by simp
next
  fix s :: string and c t
  assume "s = c # t"
  then show "(t, s) \<in> measure length" by simp
next
  fix s :: string and c t x2 b1 r1
  assume "s = c # t" "pct_bytes 1 s = Some x2" "(b1, r1) = x2"
  then have "pct_bytes (Suc 0) s = Some (b1, r1)" by simp
  then show "(r1, s) \<in> measure length"
    using pct_bytes_Suc_shorter by simp
next
  fix s :: string and c t x2 b1 r1 x2a bs r
  assume a: "pct_bytes (lead_count (hd b1)) s = Some x2a" "(bs, r) = x2a"
    "lead_count (hd b1) \<noteq> 0 \<and> utf8_len bs = lead_count (hd b1)"
  then obtain k where k: "lead_count (hd b1) = Suc k" by (cases "lead_count (hd b1)") auto
  with a have "pct_bytes (Suc k) s = Some (bs, r)" by simp
  then show "(r, s) \<in> measure length"
    using pct_bytes_Suc_shorter by simp
qed

declare decodeURIComponent.simps [simp del]

text \<open>\<open>new TextDecoder('utf-8').decode(bytes)\<close>: well-formed sequences are kept, each
  maximal ill-formed part (\<open>bad_len\<close> bytes) becomes U+FFFD (EF BF BD), and a byte
  order mark at the start is dropped.\<close>

definition bad_len :: "string \<Rightarrow> nat" where
  "bad_len s =
     (case s of
        [] \<Rightarrow> 0
      | a # r \<Rightarrow>
          if 224 \<le> cu a \<and> cu a \<le> 239 then
            (case r of [] \<Rightarrow> 1 | b # r1 \<Rightarrow> if second3 a b then 2 else 1)
          else if 240 \<le> cu a \<and> cu a \<le> 244 then
            (case r of
               [] \<Rightarrow> 1
             | b # r1 \<Rightarrow>
                 if second4 a b then
                   (case r1 of [] \<Rightarrow> 2 | c # r2 \<Rightarrow> if cont c then 3 else 2)
                 else 1)
          else 1)"

function utf8_sanitize :: "string \<Rightarrow> string" where
  "utf8_sanitize s =
     (if s = [] then []
      else if utf8_len s \<noteq> 0 then take (utf8_len s) s @ utf8_sanitize (drop (utf8_len s) s)
      else [CHR 0xEF, CHR 0xBF, CHR 0xBD] @ utf8_sanitize (drop (bad_len s) s))"
  by pat_completeness auto
termination
proof (relation "measure length")
  show "wf (measure length)" by simp
next
  fix s :: string
  assume "s \<noteq> []" "utf8_len s \<noteq> 0"
  then show "(drop (utf8_len s) s, s) \<in> measure length" by simp
next
  fix s :: string
  assume "s \<noteq> []"
  then have "0 < bad_len s"
    by (auto simp: bad_len_def split: list.splits)
  with \<open>s \<noteq> []\<close> show "(drop (bad_len s) s, s) \<in> measure length" by simp
qed

declare utf8_sanitize.simps [simp del]

definition TextDecoder_decode :: "string \<Rightarrow> string" where
  "TextDecoder_decode bytes =
     (let t = utf8_sanitize bytes
      in if startsWith t [CHR 0xEF, CHR 0xBB, CHR 0xBF] then drop 3 t else t)"

subsection \<open>JSON values and the engine's \<open>JSON.parse\<close> and \<open>JSON.stringify\<close>\<close>

text \<open>
  The value \<open>JSON.parse\<close> returns. A number is opaque to the code modelled here except
  for its truthiness and its text (\<open>String(n)\<close>), which it carries; an object is the
  list of its own properties in their order. \<open>JSON.parse\<close> and \<open>JSON.stringify\<close> are
  built into the engine and are parameters of the model (\<open>None\<close>: \<open>JSON.parse\<close>
  throws \<open>SyntaxError\<close>).
\<close>

datatype json =
    JNull
  | JBool bool
  | JNum bool string
  | JStr string
  | JArr "json list"
  | JObj "(string \<times> json) list"

record json_engine =
  JSON_parse :: "string \<Rightarrow> json option"
  JSON_stringify :: "json \<Rightarrow> string"

text \<open>\<open>v.key\<close> for a key no prototype defines (\<open>ps\<close>, \<open>add\<close>, \<open>port\<close>): \<open>None\<close> is the
  \<open>TypeError\<close> of reading a property of \<open>null\<close>, \<open>Some None\<close> is \<open>undefined\<close>.\<close>

definition get_prop :: "json \<Rightarrow> string \<Rightarrow> json option option" where
  "get_prop v key =
     (case v of
        JNull \<Rightarrow> None
      | JObj ms \<Rightarrow> Some (map_of ms key)
      | _ \<Rightarrow> Some None)"

definition json_truthy :: "json option \<Rightarrow> bool" where
  "json_truthy v =
     (case v of
        None \<Rightarrow> False
      | Some JNull \<Rightarrow> False
      | Some (JBool b) \<Rightarrow> b
      | Some (JNum nonzero text) \<Rightarrow> nonzero
      | Some (JStr t) \<Rightarrow> t \<noteq> []
      | Some (JArr xs) \<Rightarrow> True
      | Some (JObj ms) \<Rightarrow> True)"

text \<open>\<open>v.key = x\<close> in strict mode (the files are modules): a \<open>TypeError\<close> on a
  primitive; on an array the new property is not an element, so the JSON value is
  unchanged; on an object the property is replaced in place or added last.\<close>

definition set_prop :: "json \<Rightarrow> string \<Rightarrow> json \<Rightarrow> json option" where
  "set_prop v key x =
     (case v of
        JObj ms \<Rightarrow> Some (JObj (obj_set ms key x))
      | JArr xs \<Rightarrow> Some (JArr xs)
      | _ \<Rightarrow> None)"

subsection \<open>\<open>prependNodeName\<close>\<close>

text \<open>\<open>prependNodeName(link, prefix)\<close> of \<open>modules/utils.js\<close> (the copy in
  \<open>[[path]].js\<close> is the same text). \<open>None\<close> is a thrown exception: the \<open>URIError\<close> of
  \<open>decodeURIComponent\<close> or \<open>encodeURIComponent\<close> in \<open>appendToFragment\<close>, which nothing
  in the function catches.\<close>

definition appendToFragment :: "string \<Rightarrow> string \<Rightarrow> string option" where
  "appendToFragment baseLink namePrefix =
     (case (case lastIndexOf baseLink ''#'' of
              None \<Rightarrow> Some ([], baseLink)
            | Some hashIndex \<Rightarrow>
                map_option (\<lambda>n. (n, substring baseLink 0 hashIndex))
                  (decodeURIComponent (substring_from baseLink (hashIndex + 1)))) of
        None \<Rightarrow> None
      | Some (originalName, base) \<Rightarrow>
          if startsWith originalName namePrefix then Some baseLink
          else map_option (\<lambda>n. base @ ''#'' @ n)
                 (encodeURIComponent
                    (if originalName \<noteq> [] then namePrefix @ '' - '' @ originalName
                     else namePrefix)))"

text \<open>The \<open>try\<close> block for a \<open>vmess://\<close> link; \<open>None\<close> is any exception in it
  (\<open>atob\<close>, \<open>JSON.parse\<close>, a property of \<open>null\<close>, \<open>startsWith\<close> of a value that is
  not a string, an assignment to a primitive, \<open>encodeURIComponent\<close>), which the
  \<open>catch\<close> answers with \<open>appendToFragment\<close>.\<close>

definition with_ps_prefix :: "json \<Rightarrow> string \<Rightarrow> json option" where
  "with_ps_prefix nodeConfig prefix =
     (case get_prop nodeConfig ''ps'' of
        None \<Rightarrow> None
      | Some ps \<Rightarrow>
          (case (if json_truthy ps then ps else Some (JStr [])) of
             Some (JStr originalPs) \<Rightarrow>
               if \<not> startsWith originalPs prefix then
                 set_prop nodeConfig ''ps''
                   (JStr (if originalPs \<noteq> [] then prefix @ '' - '' @ originalPs else prefix))
               else Some nodeConfig
           | _ \<Rightarrow> None))"

definition vmess_with_prefix :: "json_engine \<Rightarrow> string \<Rightarrow> string \<Rightarrow> string option" where
  "vmess_with_prefix E link prefix =
     (case atob (substring_from link (length ''vmess://'')) of
        None \<Rightarrow> None
      | Some binaryString \<Rightarrow>
          (case JSON_parse E (TextDecoder_decode binaryString) of
             None \<Rightarrow> None
           | Some nodeConfig \<Rightarrow>
               (case with_ps_prefix nodeConfig prefix of
                  None \<Rightarrow> None
                | Some nodeConfig' \<Rightarrow>
                    map_option (\<lambda>newBase64Part. ''vmess://'' @ newBase64Part)
                      (btoa_utf8 (JSON_stringify E nodeConfig')))))"

definition prependNodeName :: "json_engine \<Rightarrow> string \<Rightarrow> string \<Rightarrow> string option" where
  "prependNodeName E link prefix =
     (if prefix = [] then Some link
      else if startsWith link ''vmess://'' then
        (case vmess_with_prefix E link prefix of
           Some r \<Rightarrow> Some r
         | None \<Rightarrow> appendToFragment link prefix)
      else appendToFragment link prefix)"

subsection \<open>\<open>generateCombinedNodeList\<close>\<close>

text \<open>\<open>generateCombinedNodeList(context, config, userAgent, misubs)\<close> of
  \<open>[[path]].js\<close>. The network is the parameter \<open>net\<close>, as for the source fetcher.\<close>

definition nodeRegex :: "string \<Rightarrow> bool" where
  "nodeRegex line =
     list_ex (\<lambda>scheme. startsWith line (scheme @ ''://''))
       [''ss'', ''ssr'', ''vmess'', ''vless'', ''trojan'', ''hysteria'', ''hysteria2'',
        ''hy'', ''hy2'', ''tuic'', ''anytls'']"

definition normalizeVmessLink :: "json_engine \<Rightarrow> string \<Rightarrow> string" where
  "normalizeVmessLink E link =
     (if \<not> startsWith link ''vmess://'' then link
      else
        (case atob (substring_from link (length ''vmess://'')) of
           None \<Rightarrow> link
         | Some binaryString \<Rightarrow>
             (case JSON_parse E (TextDecoder_decode binaryString) of
                None \<Rightarrow> link
              | Some v \<Rightarrow>
                  (case btoa_utf8 (JSON_stringify E v) of
                     None \<Rightarrow> link
                   | Some newBase64Part \<Rightarrow> ''vmess://'' @ newBase64Part))))"

text \<open>The name of the manual-node group, four Chinese characters in UTF-8.\<close>

definition manual_prefix :: string where
  "manual_prefix =
     [CHR 0xE6, CHR 0x89, CHR 0x8B, CHR 0xE5, CHR 0x8A, CHR 0xA8, CHR 0xE8, CHR 0x8A,
      CHR 0x82, CHR 0xE7, CHR 0x82, CHR 0xB9]"

text \<open>\<open>those\<close> collects the results of a \<open>map\<close> whose function may throw: the first
  exception ends the \<open>map\<close>.\<close>

definition processedManualNodes :: "json_engine \<Rightarrow> bool \<Rightarrow> string \<Rightarrow> string option" where
  "processedManualNodes E prependSubName manualNodesContent =
     map_option (join_with [CHR 0x0A])
       (those
          (map (\<lambda>node. if prependSubName then prependNodeName E node manual_prefix
                       else Some node)
             (map (normalizeVmessLink E)
                (filter nodeRegex
                   (map js_trim (split_on (CHR 0x0A) manualNodesContent))))))"

text \<open>The body of a subscription: Base64 text (more than 20 characters of the alphabet
  once white space is removed) is decoded as UTF-8, and kept as it is when \<open>atob\<close>
  throws.\<close>

definition b64_text_char :: "char \<Rightarrow> bool" where
  "b64_text_char c = (alnum c \<or> c = CHR ''+'' \<or> c = CHR ''/'' \<or> c = CHR ''='')"

definition decoded_body :: "string \<Rightarrow> string" where
  "decoded_body text =
     (let cleanedText = remove_ws text
      in if 20 < length cleanedText \<and> list_all b64_text_char cleanedText then
           (case atob cleanedText of
              None \<Rightarrow> text
            | Some binaryString \<Rightarrow> TextDecoder_decode binaryString)
         else text)"

fun replace_crlf :: "string \<Rightarrow> string" where
  "replace_crlf (a # b # s) =
     (if a = CHR 0x0D \<and> b = CHR 0x0A then CHR 0x0A # replace_crlf s
      else a # replace_crlf (b # s))"
| "replace_crlf s = s"

text \<open>The filter on the display name (the second \<open>filter\<close> on \<open>validNodes\<close>): a link
  without \<open>#\<close> is kept; one whose name cannot be decoded is dropped; otherwise the link
  is kept unless the decoded name includes \<open>https://\<close>.\<close>

definition name_accepted :: "string \<Rightarrow> bool" where
  "name_accepted nodeLink =
     (case lastIndexOf nodeLink ''#'' of
        None \<Rightarrow> True
      | Some hashIndex \<Rightarrow>
          (case decodeURIComponent (substring_from nodeLink (hashIndex + 1)) of
             None \<Rightarrow> False
           | Some nodeName \<Rightarrow> \<not> js_includes nodeName ''https://''))"

definition validNodes :: "string \<Rightarrow> string list" where
  "validNodes text =
     filter name_accepted
       (filter nodeRegex (map js_trim (split_on (CHR 0x0A) (replace_crlf (decoded_body text)))))"

text \<open>One entry of \<open>subPromises\<close>: every failure inside the \<open>try\<close> block (the fetch, a
  status that is not 2xx, reading the body, an exception of \<open>prependNodeName\<close>) makes
  the source contribute the empty string.\<close>

definition processedSubContent ::
  "json_engine \<Rightarrow> bool \<Rightarrow> string \<Rightarrow> (request \<Rightarrow> outcome) \<Rightarrow> misub \<Rightarrow> string" where
  "processedSubContent E prependSubName userAgent' net sub =
     (case net (DirectGet (sub_url sub) userAgent') of
        Rejected msg \<Rightarrow> []
      | Resolved r \<Rightarrow>
          if \<not> ok r then []
          else
            (case body r of
               None \<Rightarrow> []
             | Some text \<Rightarrow>
                 if prependSubName \<and> sub_name sub \<noteq> [] then
                   (case those (map (\<lambda>node. prependNodeName E node (sub_name sub))
                                  (validNodes text)) of
                      None \<Rightarrow> []
                    | Some named \<Rightarrow> join_with [CHR 0x0A] named)
                 else join_with [CHR 0x0A] (validNodes text)))"

text \<open>The last line: the lines of the combined content, trimmed, without the empty ones,
  through a \<open>Set\<close> (which keeps the first occurrence of each element, in order), joined
  by newlines.\<close>

definition new_Set :: "'a list \<Rightarrow> 'a list" where
  "new_Set xs = rev (remdups (rev xs))"

definition unique_lines :: "string \<Rightarrow> string list" where
  "unique_lines combinedContent =
     new_Set (filter (\<lambda>line. line \<noteq> []) (map js_trim (split_on (CHR 0x0A) combinedContent)))"

definition is_http :: "misub \<Rightarrow> bool" where
  "is_http sub = startsWith (lower (sub_url sub)) ''http''"

definition combinedContent ::
  "json_engine \<Rightarrow> bool \<Rightarrow> string \<Rightarrow> (request \<Rightarrow> outcome) \<Rightarrow> misub list \<Rightarrow> string option" where
  "combinedContent E prependSubName userAgent' net misubs =
     map_option
       (\<lambda>manual. manual @ [CHR 0x0A]
          @ join_with [CHR 0x0A]
              (map (processedSubContent E prependSubName userAgent' net) (filter is_http misubs)))
       (processedManualNodes E prependSubName
          (concat (map (\<lambda>sub. sub_url sub @ [CHR 0x0A])
                     (filter (\<lambda>sub. \<not> is_http sub) misubs))))"

definition generateCombinedNodeList ::
  "json_engine \<Rightarrow> bool \<Rightarrow> string \<Rightarrow> (request \<Rightarrow> outcome) \<Rightarrow> misub list \<Rightarrow> string option" where
  "generateCombinedNodeList E prependSubName userAgent' net misubs =
     map_option (\<lambda>content. join_with [CHR 0x0A] (unique_lines content))
       (combinedContent E prependSubName userAgent' net misubs)"

subsection \<open>An engine for the examples\<close>

text \<open>To evaluate the code on examples, \<open>flat_engine\<close> implements \<open>JSON.stringify\<close>
  and \<open>JSON.parse\<close> on the flat objects whose members are strings, written without
  white space (what \<open>JSON.stringify\<close> prints for them); the parser rejects every other
  text. A repeated key keeps its first position and its last value. Of the escapes
  \<open>\uXXXX\<close> the parser reads those below U+0080.\<close>

definition json_escape :: "char \<Rightarrow> string" where
  "json_escape c =
     (if c = CHR 0x22 then [CHR 0x5C, CHR 0x22]
      else if c = CHR 0x5C then [CHR 0x5C, CHR 0x5C]
      else if c = CHR 0x08 then [CHR 0x5C, CHR ''b'']
      else if c = CHR 0x09 then [CHR 0x5C, CHR ''t'']
      else if c = CHR 0x0A then [CHR 0x5C, CHR ''n'']
      else if c = CHR 0x0C then [CHR 0x5C, CHR ''f'']
      else if c = CHR 0x0D then [CHR 0x5C, CHR ''r'']
      else if cu c < 32 then
        [CHR 0x5C, CHR ''u'', CHR ''0'', CHR ''0'', hex_lower (cu c div 16), hex_lower (cu c mod 16)]
      else [c])"

definition quote :: "string \<Rightarrow> string" where
  "quote s = [CHR 0x22] @ concat (map json_escape s) @ [CHR 0x22]"

fun stringify_flat :: "json \<Rightarrow> string" where
  "stringify_flat (JStr s) = quote s"
| "stringify_flat (JObj ms) =
     ''{'' @ join_with '','' (map (\<lambda>(k, v). quote k @ '':'' @ (case v of JStr s \<Rightarrow> quote s | _ \<Rightarrow> ''null'')) ms) @ ''}''"
| "stringify_flat v = ''null''"

text \<open>Reads the rest of a string literal, after its opening quote: the string and what
  follows the closing quote.\<close>

fun unquote :: "string \<Rightarrow> (string \<times> string) option" where
  "unquote [] = None"
| "unquote (c # s) =
     (if c = CHR 0x22 then Some ([], s)
      else if c = CHR 0x5C then
        (case s of
           [] \<Rightarrow> None
         | e # r \<Rightarrow>
             if e = CHR 0x22 \<or> e = CHR 0x5C \<or> e = CHR ''/'' then
               map_option (\<lambda>(t, q). (e # t, q)) (unquote r)
             else if e = CHR ''b'' then map_option (\<lambda>(t, q). (CHR 0x08 # t, q)) (unquote r)
             else if e = CHR ''t'' then map_option (\<lambda>(t, q). (CHR 0x09 # t, q)) (unquote r)
             else if e = CHR ''n'' then map_option (\<lambda>(t, q). (CHR 0x0A # t, q)) (unquote r)
             else if e = CHR ''f'' then map_option (\<lambda>(t, q). (CHR 0x0C # t, q)) (unquote r)
             else if e = CHR ''r'' then map_option (\<lambda>(t, q). (CHR 0x0D # t, q)) (unquote r)
             else if e = CHR ''u'' then
               (case r of
                  a # b # x # y # r' \<Rightarrow>
                    (case (hex_val a, hex_val b, hex_val x, hex_val y) of
                       (Some 0, Some 0, Some h, Some l) \<Rightarrow>
                         if 16 * h + l < 128
                         then map_option (\<lambda>(t, q). (byte (16 * h + l) # t, q)) (unquote r')
                         else None
                     | _ \<Rightarrow> None)
                | _ \<Rightarrow> None)
             else None)
      else if cu c < 32 then None
      else map_option (\<lambda>(t, q). (c # t, q)) (unquote s))"

fun parse_members :: "nat \<Rightarrow> string \<Rightarrow> (string \<times> json) list \<Rightarrow> (string \<times> json) list option" where
  "parse_members 0 s acc = None"
| "parse_members (Suc n) s acc =
     (case s of
        [] \<Rightarrow> None
      | q # s1 \<Rightarrow>
          if q \<noteq> CHR 0x22 then None
          else
            (case unquote s1 of
               None \<Rightarrow> None
             | Some (k, s2) \<Rightarrow>
                 (case s2 of
                    c # q' # s3 \<Rightarrow>
                      if c = CHR '':'' \<and> q' = CHR 0x22 then
                        (case unquote s3 of
                           None \<Rightarrow> None
                         | Some (v, s4) \<Rightarrow>
                             (case s4 of
                                [] \<Rightarrow> None
                              | d # s5 \<Rightarrow>
                                  if d = CHR ''}'' \<and> s5 = [] then Some (obj_set acc k (JStr v))
                                  else if d = CHR '','' then
                                    parse_members n s5 (obj_set acc k (JStr v))
                                  else None))
                      else None
                  | _ \<Rightarrow> None)))"

definition parse_flat :: "string \<Rightarrow> json option" where
  "parse_flat s =
     (case s of
        [] \<Rightarrow> None
      | b # r \<Rightarrow>
          if b \<noteq> CHR ''{'' then None
          else if r = ''}'' then Some (JObj [])
          else map_option JObj (parse_members (length r) r []))"

definition flat_engine :: json_engine where
  "flat_engine = \<lparr>JSON_parse = parse_flat, JSON_stringify = stringify_flat\<rparr>"

subsection \<open>Example sources\<close>

text \<open>Two subscriptions that answer the same two links (the first line ends with a
  carriage return, the second starts with a space) and a manual node equal to the
  first link.\<close>

definition two_sources_net :: "request \<Rightarrow> outcome" where
  "two_sources_net rq =
     Resolved \<lparr>ok = True, status = 200,
               body = Some (''trojan://x@host:443#foo'' @ [CHR 0x0D, CHR 0x0A]
                            @ '' vless://u@h2:443#bar'' @ [CHR 0x0A])\<rparr>"

definition source_a :: misub where
  "source_a = \<lparr>sub_id = ''a'', sub_url = ''https://a.example/sub'', sub_name = ''A'',
                sub_enabled = True, sub_userInfo = None, isExpiredNode = False\<rparr>"

definition source_b :: misub where
  "source_b = \<lparr>sub_id = ''b'', sub_url = ''HTTPS://b.example/sub'', sub_name = ''B'',
                sub_enabled = True, sub_userInfo = None, isExpiredNode = False\<rparr>"

definition manual_c :: misub where
  "manual_c = \<lparr>sub_id = ''c'', sub_url = ''trojan://x@host:443#foo'', sub_name = ''C'',
                sub_enabled = True, sub_userInfo = None, isExpiredNode = False\<rparr>"

subsection \<open>Lines, trimming and the \<open>Set\<close>\<close>

lemma split_on_nonempty: "split_on d s \<noteq> []"
  by (induction s) (auto split: list.splits)

lemma split_on_no_delim: "l \<in> set (split_on d s) \<Longrightarrow> d \<notin> set l"
proof (induction s arbitrary: l)
  case Nil
  then show ?case by simp
next
  case (Cons c s)
  then show ?case
    by (cases "split_on d s") (auto split: if_splits)
qed

lemma split_on_plain: "d \<notin> set x \<Longrightarrow> split_on d x = [x]"
  by (induction x) auto

lemma split_on_append:
  "d \<notin> set x \<Longrightarrow> split_on d (x @ d # s) = x # split_on d s"
  by (induction x) auto

lemma split_join:
  assumes "xs \<noteq> []" and "\<And>x. x \<in> set xs \<Longrightarrow> d \<notin> set x"
  shows "split_on d (join_with [d] xs) = xs"
  using assms
proof (induction xs)
  case Nil
  then show ?case by simp
next
  case (Cons x xs)
  show ?case
  proof (cases xs)
    case Nil
    then show ?thesis using Cons.prems by (simp add: split_on_plain)
  next
    case (Cons y r)
    then have "split_on d (join_with [d] xs) = xs"
      using Cons.IH Cons.prems by simp
    then show ?thesis
      using Cons Cons.prems by (simp add: split_on_append)
  qed
qed

lemma set_trimStart: "set (trimStart s) \<subseteq> set s"
proof (induction s rule: trimStart.induct)
  case (1 s)
  show ?case
  proof (cases "ws_len s = 0")
    case True
    then show ?thesis by (subst trimStart.simps) simp
  next
    case False
    then have "set (trimStart s) = set (trimStart (drop (ws_len s) s))"
      by (subst trimStart.simps) simp
    also have "\<dots> \<subseteq> set (drop (ws_len s) s)" using 1 False by simp
    also have "\<dots> \<subseteq> set s" by (rule set_drop_subset)
    finally show ?thesis .
  qed
qed

lemma set_trimEnd: "set (trimEnd s) \<subseteq> set s"
proof (induction s rule: trimEnd.induct)
  case (1 s)
  show ?case
  proof (cases "ws_suffix_len s = 0")
    case True
    then show ?thesis by (subst trimEnd.simps) simp
  next
    case False
    then have "set (trimEnd s) = set (trimEnd (take (length s - ws_suffix_len s) s))"
      by (subst trimEnd.simps) simp
    also have "\<dots> \<subseteq> set (take (length s - ws_suffix_len s) s)" using 1 False by simp
    also have "\<dots> \<subseteq> set s" by (rule set_take_subset)
    finally show ?thesis .
  qed
qed

lemma set_js_trim: "set (js_trim s) \<subseteq> set s"
  unfolding js_trim_def using set_trimEnd set_trimStart by blast

lemma new_Set_distinct: "distinct (new_Set xs)"
  by (simp add: new_Set_def)

lemma new_Set_set: "set (new_Set xs) = set xs"
  by (simp add: new_Set_def)

lemma count_list_distinct: "distinct xs \<Longrightarrow> x \<in> set xs \<Longrightarrow> count_list xs x = 1"
  by (induction xs) (auto simp: count_list_0_iff)

lemma unique_lines_no_newline:
  assumes "x \<in> set (unique_lines c)"
  shows "CHR 0x0A \<notin> set x"
proof -
  from assms obtain l where l: "l \<in> set (split_on (CHR 0x0A) c)" "x = js_trim l"
    by (auto simp: unique_lines_def new_Set_set)
  then have "CHR 0x0A \<notin> set l" by (simp add: split_on_no_delim)
  then show ?thesis using l set_js_trim [of l] by blast
qed

lemma unique_lines_set:
  "set (unique_lines c) = set (map js_trim (split_on (CHR 0x0A) c)) - {[]}"
  by (auto simp: unique_lines_def new_Set_set)

subsection \<open>Deduplication of the aggregated list\<close>

text \<open>Claim C3: whenever aggregation produces a combined content, every non-empty
  trimmed line of it (in particular one that is repeated) occurs exactly once among the
  lines of the output of \<open>generateCombinedNodeList\<close>; the output lines are pairwise
  different, none is empty, and they are exactly the non-empty trimmed lines of the
  combined content, compared as whole lines.\<close>

theorem combined_list_unique:
  assumes c: "combinedContent E prependSubName ua net misubs = Some c"
      and l: "l \<in> set (map js_trim (split_on (CHR 0x0A) c))" "l \<noteq> []"
  shows "\<exists>out. generateCombinedNodeList E prependSubName ua net misubs = Some out
           \<and> count_list (split_on (CHR 0x0A) out) l = 1
           \<and> distinct (split_on (CHR 0x0A) out)
           \<and> [] \<notin> set (split_on (CHR 0x0A) out)
           \<and> set (split_on (CHR 0x0A) out) = set (map js_trim (split_on (CHR 0x0A) c)) - {[]}"
proof -
  let ?out = "join_with [CHR 0x0A] (unique_lines c)"
  have mem: "l \<in> set (unique_lines c)"
    using l by (simp add: unique_lines_set)
  then have ne: "unique_lines c \<noteq> []" by auto
  have lines: "split_on (CHR 0x0A) ?out = unique_lines c"
    using split_join [OF ne] unique_lines_no_newline by blast
  have d: "distinct (unique_lines c)"
    by (simp add: unique_lines_def new_Set_distinct)
  have "generateCombinedNodeList E prependSubName ua net misubs = Some ?out"
    using c by (simp add: generateCombinedNodeList_def)
  moreover have "count_list (split_on (CHR 0x0A) ?out) l = 1"
    using lines d mem by (simp add: count_list_distinct)
  moreover have "[] \<notin> set (split_on (CHR 0x0A) ?out)"
    unfolding lines by (simp add: unique_lines_set)
  ultimately show ?thesis
    using lines d unique_lines_set by metis
qed

theorem combined_list_unique_witness:
  "combinedContent flat_engine False ''v2rayN/7.23'' two_sources_net [source_a, manual_c, source_b]
     = Some (''trojan://x@host:443#foo'' @ [CHR 0x0A] @ ''trojan://x@host:443#foo'' @ [CHR 0x0A]
             @ ''vless://u@h2:443#bar'' @ [CHR 0x0A] @ ''trojan://x@host:443#foo'' @ [CHR 0x0A]
             @ ''vless://u@h2:443#bar'')
   \<and> (\<exists>out. generateCombinedNodeList flat_engine False ''v2rayN/7.23'' two_sources_net
                 [source_a, manual_c, source_b] = Some out
            \<and> count_list (split_on (CHR 0x0A) out) ''trojan://x@host:443#foo'' = 1
            \<and> distinct (split_on (CHR 0x0A) out)
            \<and> [] \<notin> set (split_on (CHR 0x0A) out))"
proof -
  define c where
    "c = ''trojan://x@host:443#foo'' @ [CHR 0x0A] @ ''trojan://x@host:443#foo'' @ [CHR 0x0A]
         @ ''vless://u@h2:443#bar'' @ [CHR 0x0A] @ ''trojan://x@host:443#foo'' @ [CHR 0x0A]
         @ ''vless://u@h2:443#bar''"
  have c: "combinedContent flat_engine False ''v2rayN/7.23'' two_sources_net
             [source_a, manual_c, source_b] = Some c"
    unfolding c_def by code_simp
  have "map js_trim (split_on (CHR 0x0A) c)
          = [''trojan://x@host:443#foo'', ''trojan://x@host:443#foo'', ''vless://u@h2:443#bar'',
             ''trojan://x@host:443#foo'', ''vless://u@h2:443#bar'']"
    unfolding c_def by code_simp
  then have l: "''trojan://x@host:443#foo'' \<in> set (map js_trim (split_on (CHR 0x0A) c))"
    by simp
  have ne: "''trojan://x@host:443#foo'' \<noteq> []" by simp
  show ?thesis
    using combined_list_unique [OF c l ne] c unfolding c_def by blast
qed

subsection \<open>The filter on display names\<close>

lemma validNodes_no_newline: "x \<in> set (validNodes text) \<Longrightarrow> CHR 0x0A \<notin> set x"
proof -
  assume "x \<in> set (validNodes text)"
  then obtain l where l: "l \<in> set (split_on (CHR 0x0A) (replace_crlf (decoded_body text)))"
    "x = js_trim l"
    by (auto simp: validNodes_def)
  then have "CHR 0x0A \<notin> set l" by (simp add: split_on_no_delim)
  then show ?thesis using l set_js_trim [of l] by blast
qed

lemma validNodes_accepted: "x \<in> set (validNodes text) \<Longrightarrow> name_accepted x"
  by (simp add: validNodes_def)

lemma lastIndexOf_Some_nonempty: "lastIndexOf l p = Some i \<Longrightarrow> p \<noteq> [] \<Longrightarrow> l \<noteq> []"
  by (cases l) auto

text \<open>Claim C7, as stated, fails: the filter looks for the one literal \<open>https://\<close>. A
  line whose decoded display name contains the scheme marker \<open>http://\<close>, or
  \<open>HTTPS://\<close> in capitals, stays in the normalized list.\<close>

theorem other_scheme_markers_kept_counterexample:
  "validNodes (''trojan://p@h.example:443#http://ads.example/x'' @ [CHR 0x0A]
               @ ''trojan://p@h.example:443#see%20HTTPS://ads.example'' @ [CHR 0x0A]
               @ ''trojan://p@h.example:443#see%20https://ads.example'')
     = [''trojan://p@h.example:443#http://ads.example/x'',
        ''trojan://p@h.example:443#see%20HTTPS://ads.example'']
   \<and> decodeURIComponent ''http://ads.example/x'' = Some ''http://ads.example/x''
   \<and> js_includes ''http://ads.example/x'' ''http://''"
  by code_simp

text \<open>The source name that name-prefixing prepends to the kept lines is not tested:
  with the source name \<open>https://s\<close>, the line the source contributes has a name that
  contains \<open>https://\<close>.\<close>

lemma prefix_is_not_filtered:
  "processedSubContent flat_engine True ''v2rayN/7.23''
     (\<lambda>rq. Resolved \<lparr>ok = True, status = 200, body = Some ''trojan://p@h.example:443#ok''\<rparr>)
     (source_a\<lparr>sub_name := ''https://s''\<rparr>)
   = ''trojan://p@h.example:443#https%3A%2F%2Fs%20-%20ok''
   \<and> decodeURIComponent ''https%3A%2F%2Fs%20-%20ok'' = Some ''https://s - ok''"
  by code_simp

text \<open>Claim C7, amended: a line whose display name (the fragment after the last \<open>#\<close>)
  cannot be percent-decoded, or decodes to a name that contains the literal
  \<open>https://\<close>, is rejected by the filter on names: it is not in the list \<open>validNodes\<close>
  of the lines kept from a fetched text; it is not a line of what the source
  contributes when the source-name prefix is not applied; and what the source
  contributes is made from the kept lines alone (the kept lines, each with the source
  name prepended when the prefix is applied, joined by newlines).\<close>

theorem embedded_https_rejected:
  assumes hash: "lastIndexOf l ''#'' = Some i"
      and name: "(case decodeURIComponent (substring_from l (i + 1)) of
                    None \<Rightarrow> True
                  | Some n \<Rightarrow> js_includes n ''https://'')"
  shows "l \<notin> set (validNodes text)
         \<and> (\<not> (prependSubName \<and> sub_name sub \<noteq> []) \<longrightarrow>
              l \<notin> set (split_on (CHR 0x0A) (processedSubContent E prependSubName ua net sub)))
         \<and> (net (DirectGet (sub_url sub) ua) = Resolved r \<and> ok r \<and> body r = Some text \<longrightarrow>
              processedSubContent E prependSubName ua net sub
                = (if prependSubName \<and> sub_name sub \<noteq> [] then
                     (case those (map (\<lambda>node. prependNodeName E node (sub_name sub))
                                    (validNodes text)) of
                        None \<Rightarrow> []
                      | Some named \<Rightarrow> join_with [CHR 0x0A] named)
                   else join_with [CHR 0x0A] (validNodes text)))"
proof -
  have rejected: "\<not> name_accepted l"
    using assms by (simp add: name_accepted_def split: option.splits)
  then have valid: "l \<notin> set (validNodes t)" for t
    using validNodes_accepted by blast
  have l_ne: "l \<noteq> []"
    using lastIndexOf_Some_nonempty [OF hash] by simp
  have joined: "l \<notin> set (split_on (CHR 0x0A) (join_with [CHR 0x0A] (validNodes t)))" for t
  proof (cases "validNodes t = []")
    case True
    then show ?thesis using l_ne by simp
  next
    case False
    then have "split_on (CHR 0x0A) (join_with [CHR 0x0A] (validNodes t)) = validNodes t"
      using split_join validNodes_no_newline by blast
    then show ?thesis using valid by simp
  qed
  have plain: "l \<notin> set (split_on (CHR 0x0A) (processedSubContent E prependSubName ua net sub))"
    if "\<not> (prependSubName \<and> sub_name sub \<noteq> [])"
    using that joined l_ne
    by (auto simp: processedSubContent_def split: outcome.splits option.splits)
  have made: "processedSubContent E prependSubName ua net sub
                = (if prependSubName \<and> sub_name sub \<noteq> [] then
                     (case those (map (\<lambda>node. prependNodeName E node (sub_name sub))
                                    (validNodes text)) of
                        None \<Rightarrow> []
                      | Some named \<Rightarrow> join_with [CHR 0x0A] named)
                   else join_with [CHR 0x0A] (validNodes text))"
    if "net (DirectGet (sub_url sub) ua) = Resolved r" "ok r" "body r = Some text"
    using that by (simp add: processedSubContent_def)
  show ?thesis using valid plain made by blast
qed

theorem embedded_https_rejected_witness:
  "lastIndexOf ''trojan://p@h.example:443#see%20https://ads.example'' ''#'' = Some 24
   \<and> decodeURIComponent (substring_from ''trojan://p@h.example:443#see%20https://ads.example'' (24 + 1))
       = Some ''see https://ads.example''
   \<and> js_includes ''see https://ads.example'' ''https://''
   \<and> ''trojan://p@h.example:443#see%20https://ads.example''
       \<notin> set (validNodes (''trojan://p@h.example:443#see%20https://ads.example'' @ [CHR 0x0A]
                             @ ''trojan://p@h.example:443#ok''))
   \<and> \<not> (False \<and> sub_name source_a \<noteq> [])
   \<and> ''trojan://p@h.example:443#see%20https://ads.example''
       \<notin> set (split_on (CHR 0x0A)
                 (processedSubContent flat_engine False ''v2rayN/7.23'' two_sources_net source_a))"
proof -
  have hash: "lastIndexOf ''trojan://p@h.example:443#see%20https://ads.example'' ''#'' = Some 24"
    by code_simp
  have decoded: "decodeURIComponent
                   (substring_from ''trojan://p@h.example:443#see%20https://ads.example'' (24 + 1))
                 = Some ''see https://ads.example''"
    by code_simp
  have marker: "js_includes ''see https://ads.example'' ''https://''"
    by code_simp
  have name: "(case decodeURIComponent
                      (substring_from ''trojan://p@h.example:443#see%20https://ads.example'' (24 + 1)) of
                 None \<Rightarrow> True
               | Some n \<Rightarrow> js_includes n ''https://'')"
    unfolding decoded option.case by (rule marker)
  show ?thesis
    using embedded_https_rejected [OF hash name, of _ False source_a flat_engine
        "''v2rayN/7.23''" two_sources_net] hash decoded marker
    by blast
qed

section \<open>CacheManager\<close>

text \<open>
  Modelled from the spec: the cache manager \<open>resolveNodeListWithCache\<close>
  (\<open>cache-manager.js\<close>) and the cache service (\<open>node-cache-service.js\<close>) are not part
  of the sources; the handler only imports and calls them. The definitions of this
  section follow section 4.5 of the specification: the state machine of a cache key
  (\<open>Missing\<close>, \<open>Refreshing\<close>, \<open>Fresh\<close>, \<open>Stale\<close>), \<open>resolve(key, forceRefresh,
  refreshFn)\<close>, \<open>write(key, content, sourceNames)\<close> and the single-flight rule.
  Concurrent callers are interleaved: a run is a list of events, each an atomic step (a
  call of \<open>resolve\<close>, the end of a refresh with its result, the entry's age reaching the
  TTL). An entry counts the refreshes in flight and the invocations of \<open>refreshFn\<close>.
\<close>

datatype cache_status = Missing | Fresh | Stale | Refreshing

record entry =
  nodeListText :: "string option"
  sourceNames :: "string list"
  fresh :: bool
  in_flight :: nat
  invocations :: nat

type_synonym cache = "string \<Rightarrow> entry"

text \<open>Modelled from the spec: the state of a key. \<open>Refreshing\<close> while a refresh is in
  flight; otherwise \<open>Missing\<close> without an entry, \<open>Fresh\<close> below the TTL, \<open>Stale\<close> at or
  above it.\<close>

definition status_of :: "entry \<Rightarrow> cache_status" where
  "status_of e =
     (if 0 < in_flight e then Refreshing
      else (case nodeListText e of
              None \<Rightarrow> Missing
            | Some c \<Rightarrow> if fresh e then Fresh else Stale))"

text \<open>Modelled from the spec: \<open>resolve\<close>. A caller is answered with the cached content
  at once (\<open>Cached\<close>) or awaits a refresh, its own or the one in progress
  (\<open>Awaited\<close>). \<open>Missing\<close> or \<open>forceRefresh\<close>: invoke \<open>refreshFn\<close> and await it.
  \<open>Fresh\<close>: the cached content, no refresh. \<open>Stale\<close>: the stale content, and
  \<open>refreshFn\<close> is invoked in the background. \<open>Refreshing\<close>: no second refresh is started;
  the caller is served the existing content, or awaits the refresh in progress when
  there is none or it forces a refresh.\<close>

datatype served = Awaited | Cached string

definition start_refresh :: "entry \<Rightarrow> entry" where
  "start_refresh e = e\<lparr>in_flight := in_flight e + 1, invocations := invocations e + 1\<rparr>"

definition resolve :: "entry \<Rightarrow> bool \<Rightarrow> served \<times> entry" where
  "resolve e force =
     (case status_of e of
        Refreshing \<Rightarrow>
          (case nodeListText e of
             None \<Rightarrow> (Awaited, e)
           | Some c \<Rightarrow> if force then (Awaited, e) else (Cached c, e))
      | Missing \<Rightarrow> (Awaited, start_refresh e)
      | Fresh \<Rightarrow>
          if force then (Awaited, start_refresh e)
          else (case nodeListText e of None \<Rightarrow> (Awaited, e) | Some c \<Rightarrow> (Cached c, e))
      | Stale \<Rightarrow>
          if force then (Awaited, start_refresh e)
          else (case nodeListText e of
                  None \<Rightarrow> (Awaited, e)
                | Some c \<Rightarrow> (Cached c, start_refresh e)))"

text \<open>Modelled from the spec: \<open>write\<close> replaces the entry and resets the freshness
  clock; a refresh that ends writes its content, one that fails leaves the entry
  \<open>Stale\<close>.\<close>

definition write_entry :: "entry \<Rightarrow> string \<Rightarrow> string list \<Rightarrow> entry" where
  "write_entry e c names = e\<lparr>nodeListText := Some c, sourceNames := names, fresh := True\<rparr>"

definition complete :: "entry \<Rightarrow> (string \<times> string list) option \<Rightarrow> entry" where
  "complete e result =
     (if in_flight e = 0 then e
      else (case result of
              Some (c, names) \<Rightarrow> (write_entry e c names)\<lparr>in_flight := in_flight e - 1\<rparr>
            | None \<Rightarrow> e\<lparr>fresh := False, in_flight := in_flight e - 1\<rparr>))"

definition expire :: "entry \<Rightarrow> entry" where
  "expire e = e\<lparr>fresh := False\<rparr>"

datatype event =
    Resolve string bool
  | Complete string "(string \<times> string list) option"
  | Expire string

fun step :: "cache \<Rightarrow> event \<Rightarrow> cache" where
  "step s (Resolve k f) = s(k := snd (resolve (s k) f))"
| "step s (Complete k r) = s(k := complete (s k) r)"
| "step s (Expire k) = s(k := expire (s k))"

fun run :: "cache \<Rightarrow> event list \<Rightarrow> cache" where
  "run s [] = s"
| "run s (e # es) = run (step s e) es"

text \<open>What each \<open>resolve\<close> call for key \<open>k\<close> in a run is answered with, in order.\<close>

fun answers :: "cache \<Rightarrow> string \<Rightarrow> event list \<Rightarrow> served list" where
  "answers s k [] = []"
| "answers s k (Resolve k' f # es) =
     (if k' = k then fst (resolve (s k) f) # answers (step s (Resolve k' f)) k es
      else answers (step s (Resolve k' f)) k es)"
| "answers s k (e # es) = answers (step s e) k es"

fun completes :: "string \<Rightarrow> event \<Rightarrow> bool" where
  "completes k (Complete k' r) = (k' = k)"
| "completes k e = False"

fun resolves :: "string \<Rightarrow> event \<Rightarrow> bool" where
  "resolves k (Resolve k' f) = (k' = k)"
| "resolves k e = False"

subsection \<open>Single-flight\<close>

lemma step_in_flight: "in_flight (s k) \<le> 1 \<Longrightarrow> in_flight (step s e k) \<le> 1"
  by (cases e)
     (auto simp: resolve_def status_of_def start_refresh_def complete_def write_entry_def expire_def
           split: option.splits cache_status.splits)

lemma run_in_flight: "(\<And>k. in_flight (s k) \<le> 1) \<Longrightarrow> in_flight (run s es k) \<le> 1"
proof (induction es arbitrary: s)
  case Nil
  then show ?case by simp
next
  case (Cons e es)
  then show ?case using step_in_flight by simp
qed

lemma refreshing_run:
  assumes "in_flight (s k) = 1" "nodeListText (s k) = Some c"
      and "\<not> list_ex (completes k) es"
  shows "invocations (run s es k) = invocations (s k)
         \<and> list_all (\<lambda>a. a = Cached c \<or> a = Awaited) (answers s k es)"
  using assms
proof (induction es arbitrary: s)
  case Nil
  then show ?case by simp
next
  case (Cons e es)
  have keep: "in_flight (step s e k) = 1 \<and> nodeListText (step s e k) = Some c
              \<and> invocations (step s e k) = invocations (s k)"
    using Cons.prems
    by (cases e) (auto simp: resolve_def status_of_def expire_def)
  have here: "resolves k e \<Longrightarrow> e = Resolve k f \<Longrightarrow>
              fst (resolve (s k) f) = Cached c \<or> fst (resolve (s k) f) = Awaited" for f
    using Cons.prems by (auto simp: resolve_def status_of_def)
  have "invocations (run (step s e) es k) = invocations (step s e k)
        \<and> list_all (\<lambda>a. a = Cached c \<or> a = Awaited) (answers (step s e) k es)"
    using Cons.IH [of "step s e"] keep Cons.prems(3) by simp
  then show ?case
    using keep here by (cases e) auto
qed

lemma stale_run:
  assumes "status_of (s k) = Stale" "nodeListText (s k) = Some c"
      and "\<not> list_ex (completes k) es" "list_ex (resolves k) es"
  shows "invocations (run s es k) = invocations (s k) + 1
         \<and> list_all (\<lambda>a. a = Cached c \<or> a = Awaited) (answers s k es)"
  using assms
proof (induction es arbitrary: s)
  case Nil
  then show ?case by simp
next
  case (Cons e es)
  show ?case
  proof (cases "resolves k e")
    case True
    then obtain f where e: "e = Resolve k f" by (cases e) auto
    have st: "in_flight (step s e k) = 1 \<and> nodeListText (step s e k) = Some c
              \<and> invocations (step s e k) = invocations (s k) + 1
              \<and> (fst (resolve (s k) f) = Cached c \<or> fst (resolve (s k) f) = Awaited)"
      using Cons.prems(1,2) e
      by (auto simp: resolve_def status_of_def start_refresh_def split: if_splits option.splits)
    then show ?thesis
      using refreshing_run [of "step s e" k c es] Cons.prems(3) e by auto
  next
    case False
    then have same: "status_of (step s e k) = Stale \<and> nodeListText (step s e k) = Some c
                     \<and> invocations (step s e k) = invocations (s k)"
      using Cons.prems
      by (cases e) (auto simp: status_of_def expire_def split: if_splits option.splits)
    moreover have "answers s k (e # es) = answers (step s e) k es"
      using False by (cases e) simp_all
    moreover have "\<not> list_ex (completes k) es" "list_ex (resolves k) es"
      using Cons.prems(3,4) False by simp_all
    ultimately show ?thesis
      using Cons.IH [of "step s e"] by simp
  qed
qed

text \<open>Claim C2: from a state with at most one refresh in flight per key, every run keeps
  at most one refresh in flight for every key; and when \<open>resolve\<close> calls arrive for a
  stale key, interleaved in any way with events of other keys and with none of the
  key's refreshes ending in between, \<open>refreshFn\<close> is invoked exactly once for the key,
  and every one of these callers is served the existing cached content or awaits the
  refresh in progress.\<close>

theorem single_flight:
  assumes "\<And>k. in_flight (s k) \<le> 1"
  shows "in_flight (run s es k) \<le> 1
         \<and> (status_of (s k) = Stale \<and> nodeListText (s k) = Some c
              \<and> \<not> list_ex (completes k) es \<and> list_ex (resolves k) es
            \<longrightarrow> invocations (run s es k) = invocations (s k) + 1
                \<and> list_all (\<lambda>a. a = Cached c \<or> a = Awaited) (answers s k es))"
  using run_in_flight [of s es k] assms stale_run [of s k c es] by blast

definition stale_cache :: cache where
  "stale_cache =
     (\<lambda>k. if k = ''profile:work''
          then \<lparr>nodeListText = Some ''trojan://x@host:443#foo'', sourceNames = [''A''],
                fresh = False, in_flight = 0, invocations = 3\<rparr>
          else \<lparr>nodeListText = None, sourceNames = [], fresh = False, in_flight = 0,
                invocations = 0\<rparr>)"

theorem single_flight_witness:
  "status_of (stale_cache ''profile:work'') = Stale
   \<and> \<not> list_ex (completes ''profile:work'') (replicate 10 (Resolve ''profile:work'' False))
   \<and> list_ex (resolves ''profile:work'') (replicate 10 (Resolve ''profile:work'' False))
   \<and> in_flight (run stale_cache (replicate 10 (Resolve ''profile:work'' False)) ''profile:work'') \<le> 1
   \<and> invocations (run stale_cache (replicate 10 (Resolve ''profile:work'' False)) ''profile:work'')
       = invocations (stale_cache ''profile:work'') + 1
   \<and> answers stale_cache ''profile:work'' (replicate 10 (Resolve ''profile:work'' False))
       = replicate 10 (Cached ''trojan://x@host:443#foo'')"
proof -
  have inv: "in_flight (stale_cache k) \<le> 1" for k
    by (simp add: stale_cache_def)
  have st: "status_of (stale_cache ''profile:work'') = Stale"
           "nodeListText (stale_cache ''profile:work'') = Some ''trojan://x@host:443#foo''"
    by (simp_all add: stale_cache_def status_of_def)
  have ev: "\<not> list_ex (completes ''profile:work'') (replicate 10 (Resolve ''profile:work'' False))"
           "list_ex (resolves ''profile:work'') (replicate 10 (Resolve ''profile:work'' False))"
    by code_simp+
  have ans: "answers stale_cache ''profile:work'' (replicate 10 (Resolve ''profile:work'' False))
               = replicate 10 (Cached ''trojan://x@host:443#foo'')"
    by code_simp
  show ?thesis
    using single_flight [of stale_cache "replicate 10 (Resolve ''profile:work'' False)"
        "''profile:work''" "''trojan://x@host:443#foo''", OF inv] st ev ans
    by blast
qed

section \<open>\<open>extractHostAndPort\<close>\<close>

text \<open>\<open>extractHostAndPort(url)\<close> of \<open>src/lib/utils.js\<close>. The result is the object
  \<open>{host, port}\<close>; \<open>host\<close> is a JavaScript value, since the vmess branch returns
  \<open>nodeConfig.add || ''\<close> as it is. The whole body is inside \<open>try\<close>: the function
  never throws.\<close>

record endpoint =
  host :: json
  port :: string

text \<open>\<open>String(v)\<close>: an array is the comma-joined text of its elements (\<open>null\<close> gives
  the empty text); an object is \<open>[object Object]\<close>, and a \<open>TypeError\<close> (\<open>None\<close>) when
  it has a member \<open>toString\<close> of its own, which is never callable.\<close>

fun js_String :: "json \<Rightarrow> string option" where
  "js_String JNull = Some ''null''"
| "js_String (JBool b) = Some (if b then ''true'' else ''false'')"
| "js_String (JNum nonzero text) = Some text"
| "js_String (JStr s) = Some s"
| "js_String (JArr xs) =
     map_option (join_with '','')
       (those (map (\<lambda>x. if x = JNull then Some [] else js_String x) xs))"
| "js_String (JObj ms) =
     (if map_of ms ''toString'' \<noteq> None then None else Some ''[object Object]'')"

definition empty_endpoint :: endpoint where
  "empty_endpoint = \<lparr>host = JStr [], port = []\<rparr>"

text \<open>The fallback for a vmess link that is not Base64 JSON: \<open>host:port\<close>.\<close>

definition host_colon_port :: "string \<Rightarrow> endpoint" where
  "host_colon_port s =
     (case split_on (CHR '':'') s of
        [h, p] \<Rightarrow> \<lparr>host = JStr h, port = p\<rparr>
      | _ \<Rightarrow> empty_endpoint)"

definition or_empty :: "json option \<Rightarrow> json" where
  "or_empty v = (case v of None \<Rightarrow> JStr [] | Some x \<Rightarrow> if json_truthy v then x else JStr [])"

definition is_base64_text :: "string \<Rightarrow> bool" where
  "is_base64_text s = (s \<noteq> [] \<and> list_all b64_text_char s)"

text \<open>The inner \<open>try\<close> block of the vmess branch; \<open>None\<close> is an exception in it
  (\<open>atob\<close>, \<open>JSON.parse\<close>, a property of \<open>null\<close>, \<open>String\<close>), which the inner
  \<open>catch\<close> answers with the fallback on \<open>mainPart\<close>. \<open>JSON.parse\<close> is given the binary
  string itself.\<close>

definition vmess_endpoint :: "json_engine \<Rightarrow> string \<Rightarrow> endpoint option" where
  "vmess_endpoint E mainPart =
     (let base64Part = (case indexOf mainPart ''?'' of
                          Some queryIndexVmess \<Rightarrow> substring mainPart 0 queryIndexVmess
                        | None \<Rightarrow> mainPart)
      in if \<not> is_base64_text base64Part then Some (host_colon_port base64Part)
         else
           (case atob base64Part of
              None \<Rightarrow> None
            | Some decodedString \<Rightarrow>
                (case JSON_parse E (binary_as_text decodedString) of
                   None \<Rightarrow> None
                 | Some nodeConfig \<Rightarrow>
                     (case (get_prop nodeConfig ''add'', get_prop nodeConfig ''port'') of
                        (Some add, Some prt) \<Rightarrow>
                          map_option (\<lambda>p. \<lparr>host = or_empty add, port = p\<rparr>)
                            (if json_truthy prt then js_String (or_empty prt) else Some [])
                      | _ \<Rightarrow> None))))"

text \<open>The general branch. An index that is not found is \<open>-1\<close>.\<close>

definition idx :: "nat option \<Rightarrow> int" where
  "idx i = (case i of None \<Rightarrow> - 1 | Some n \<Rightarrow> int n)"

definition server_endpoint :: "string \<Rightarrow> endpoint" where
  "server_endpoint mainPart =
     (let serverPart0 = (case lastIndexOf mainPart ''@'' of
                           Some atIndex \<Rightarrow> substring_from mainPart (atIndex + 1)
                         | None \<Rightarrow> mainPart);
          serverPart1 = (case indexOf serverPart0 ''?'' of
                           Some queryIndex \<Rightarrow> substring serverPart0 0 queryIndex
                         | None \<Rightarrow> serverPart0);
          serverPart = (case indexOf serverPart1 ''/'' of
                          Some pathIndex \<Rightarrow> substring serverPart1 0 pathIndex
                        | None \<Rightarrow> serverPart1);
          lastColonIndex = lastIndexOf serverPart '':'';
          lastBracketIndex = lastIndexOf serverPart '']''
      in if startsWith serverPart ''['' \<and> 0 < idx lastBracketIndex
            \<and> idx lastBracketIndex < idx lastColonIndex
         then \<lparr>host = JStr (substring serverPart 1 (nat (idx lastBracketIndex))),
               port = substring_from serverPart (nat (idx lastColonIndex) + 1)\<rparr>
         else if idx lastColonIndex \<noteq> - 1
         then \<lparr>host = JStr (substring serverPart 0 (nat (idx lastColonIndex))),
               port = substring_from serverPart (nat (idx lastColonIndex) + 1)\<rparr>
         else \<lparr>host = JStr serverPart, port = []\<rparr>)"

definition extractHostAndPort :: "json_engine \<Rightarrow> string \<Rightarrow> endpoint" where
  "extractHostAndPort E url =
     (if url = [] then empty_endpoint
      else
        (case indexOf url ''://'' of
           None \<Rightarrow> empty_endpoint
         | Some protocolEndIndex \<Rightarrow>
             (let protocol = substring url 0 protocolEndIndex;
                  mainPartEndIndex = (case indexOf url ''#'' of
                                        None \<Rightarrow> length url
                                      | Some fragmentStartIndex \<Rightarrow> fragmentStartIndex);
                  mainPart = substring url (protocolEndIndex + 3) mainPartEndIndex
              in if protocol = ''vmess'' then
                   (case vmess_endpoint E mainPart of
                      Some r \<Rightarrow> r
                    | None \<Rightarrow> host_colon_port mainPart)
                 else if (protocol = ''ss'' \<or> protocol = ''ssr'')
                         \<and> indexOf mainPart ''@'' = None \<and> is_base64_text mainPart then
                   (case atob mainPart of
                      Some decoded \<Rightarrow> server_endpoint (binary_as_text decoded)
                    | None \<Rightarrow> server_endpoint mainPart)
                 else server_endpoint mainPart)))"

text \<open>An engine for the example below: it knows the value of one more text,
  \<open>{"add":123,"port":443}\<close>.\<close>

definition table_engine :: json_engine where
  "table_engine =
     \<lparr>JSON_parse =
        (\<lambda>s. if s = ''{'' @ [CHR 0x22] @ ''add'' @ [CHR 0x22] @ '':123,'' @ [CHR 0x22] @ ''port''
                       @ [CHR 0x22] @ '':443}''
              then Some (JObj [(''add'', JNum True ''123''), (''port'', JNum True ''443'')])
              else parse_flat s),
      JSON_stringify = stringify_flat\<rparr>"

lemma server_endpoint_string: "\<exists>h. host (server_endpoint m) = JStr h"
  by (simp add: server_endpoint_def Let_def)

lemma host_colon_port_string: "\<exists>h. host (host_colon_port m) = JStr h"
  by (simp add: host_colon_port_def empty_endpoint_def split: list.splits)

text \<open>Outside the vmess branch the host is a string.\<close>

lemma indexOf_startsWith: "indexOf s p = Some i \<Longrightarrow> startsWith (drop i s) p"
proof (induction s arbitrary: i)
  case Nil
  then show ?case by (simp add: startsWith_def split: if_splits)
next
  case (Cons c s)
  then show ?case by (auto split: if_splits)
qed

lemma extractHostAndPort_string_unless_vmess:
  assumes nv: "\<not> startsWith url ''vmess://''"
  shows "\<exists>h. host (extractHostAndPort E url) = JStr h"
proof (cases "indexOf url ''://''")
  case None
  then show ?thesis
    by (simp add: extractHostAndPort_def empty_endpoint_def)
next
  case (Some i)
  have not_vmess: "substring url 0 i \<noteq> ''vmess''"
  proof
    assume v: "substring url 0 i = ''vmess''"
    then have t: "take i url = ''vmess''"
      by (auto simp: substring_def Let_def min_def split: if_splits)
    have "take (length ''://'') (drop i url) = ''://''"
      using indexOf_startsWith [OF Some] unfolding startsWith_def .
    then have "drop i url = ''://'' @ drop (length ''://'') (drop i url)"
      by (metis append_take_drop_id)
    then have u: "url = ''vmess'' @ ''://'' @ drop (length ''://'') (drop i url)"
      using t by (metis append_take_drop_id)
    have sw: "startsWith (''vmess'' @ ''://'' @ r) ''vmess://''" for r
      by (simp add: startsWith_def)
    have "startsWith url ''vmess://''"
      by (subst u) (rule sw)
    then show False using nv by simp
  qed
  show ?thesis
  proof (cases "url = []")
    case True
    then show ?thesis by (simp add: extractHostAndPort_def empty_endpoint_def)
  next
    case False
    then show ?thesis
      using Some not_vmess server_endpoint_string
      by (simp add: extractHostAndPort_def Let_def split: option.splits)
  qed
qed

text \<open>Claim C10 at the failing input: the payload of the link is the Base64 of
  \<open>{"add":123,"port":443}\<close>, and the \<open>host\<close> returned is the number 123, not a
  string.\<close>

theorem extractHostAndPort_number_host:
  "extractHostAndPort table_engine ''vmess://eyJhZGQiOjEyMywicG9ydCI6NDQzfQ==''
     = \<lparr>host = JNum True ''123'', port = ''443''\<rparr>"
  by code_simp

end
